theory Spec2Isabelle
  imports Main
begin

section \<open>JavaScript strings\<close>

text \<open>
  A JavaScript string is a sequence of UTF-16 code units; \<open>length\<close>, \<open>slice\<close> and a regular
  expression without the \<open>u\<close> flag all work on code units. A code unit is modelled by its
  number. \<open>str\<close> turns an ASCII literal into such a string.
\<close>

type_synonym jsstring = "nat list"

definition str :: "string \<Rightarrow> jsstring" where
  "str s = map of_char s"

text \<open>
  The class \<^verbatim>\<open>\s\<close> of a regular expression, which is also the set \<^verbatim>\<open>trim()\<close> strips:
  the white space and line terminator code points of ECMAScript (tab, LF, VT, FF, CR, space,
  NBSP, U+1680, U+2000 to U+200A, U+2028, U+2029, U+202F, U+205F, U+3000, U+FEFF).
\<close>

definition is_space :: "nat \<Rightarrow> bool" where
  "is_space c \<longleftrightarrow>
     (9 \<le> c \<and> c \<le> 13) \<or> c = 32 \<or> c = 160 \<or> c = 5760 \<or> (8192 \<le> c \<and> c \<le> 8202) \<or>
     c = 8232 \<or> c = 8233 \<or> c = 8239 \<or> c = 8287 \<or> c = 12288 \<or> c = 65279"

text \<open>\<^verbatim>\<open>s.trim()\<close>\<close>

definition trim :: "jsstring \<Rightarrow> jsstring" where
  "trim s = rev (dropWhile is_space (rev (dropWhile is_space s)))"

text \<open>\<^verbatim>\<open>s.replace(/[class]/g, rep)\<close>: every code unit of the class is replaced.\<close>

definition replace_class :: "(nat \<Rightarrow> bool) \<Rightarrow> jsstring \<Rightarrow> jsstring \<Rightarrow> jsstring" where
  "replace_class p rep s = concat (map (\<lambda>c. if p c then rep else [c]) s)"

text \<open>\<^verbatim>\<open>s.replace(/[class]+/g, rep)\<close>: every maximal run of the class is replaced.\<close>

function replace_runs :: "(nat \<Rightarrow> bool) \<Rightarrow> jsstring \<Rightarrow> jsstring \<Rightarrow> jsstring" where
  "replace_runs p rep [] = []"
| "replace_runs p rep (c # cs) =
     (if p c then rep @ replace_runs p rep (dropWhile p cs) else c # replace_runs p rep cs)"
  by pat_completeness auto
termination
  by (relation "measure (\<lambda>(p, rep, cs). length cs)")
     (auto simp: length_dropWhile_le less_Suc_eq_le)

text \<open>\<^verbatim>\<open>s.includes(sub)\<close>\<close>

fun includes_str :: "jsstring \<Rightarrow> jsstring \<Rightarrow> bool" where
  "includes_str [] sub = (sub = [])"
| "includes_str (c # cs) sub = (take (length sub) (c # cs) = sub \<or> includes_str cs sub)"

text \<open>The decimal digits of a number, as a template literal prints it.\<close>

fun digits :: "nat \<Rightarrow> jsstring" where
  "digits n = (if n < 10 then [48 + n] else digits (n div 10) @ [48 + n mod 10])"

declare digits.simps [simp del]

text \<open>A string is falsy exactly when it is empty; an absent one (\<open>None\<close>) is falsy too.\<close>

fun truthy :: "jsstring option \<Rightarrow> bool" where
  "truthy None = False"
| "truthy (Some s) = (s \<noteq> [])"

section \<open>The identity deriver\<close>

text \<open>
  The character classes of \<^verbatim>\<open>slugify\<close>: the accented letters
  \<^verbatim>\<open>[\<close>U+00E0..U+00E5\<^verbatim>\<open>]\<close>, \<^verbatim>\<open>[\<close>U+00E8..U+00EB\<^verbatim>\<open>]\<close>, \<^verbatim>\<open>[\<close>U+00EC..U+00EF\<^verbatim>\<open>]\<close>,
  \<^verbatim>\<open>[\<close>U+00F2..U+00F6\<^verbatim>\<open>]\<close>, \<^verbatim>\<open>[\<close>U+00F9..U+00FC\<^verbatim>\<open>]\<close>, \<^verbatim>\<open>[\<close>U+00F1\<^verbatim>\<open>]\<close>, and the complement of
  \<^verbatim>\<open>[a-z0-9\s-]\<close>.
\<close>

definition between :: "nat \<Rightarrow> nat \<Rightarrow> nat \<Rightarrow> bool" where
  "between lo hi c \<longleftrightarrow> lo \<le> c \<and> c \<le> hi"

definition is_hyphen :: "nat \<Rightarrow> bool" where
  "is_hyphen c \<longleftrightarrow> c = 45"

definition not_slug_input :: "nat \<Rightarrow> bool" where
  "not_slug_input c \<longleftrightarrow> \<not> (between 97 122 c \<or> between 48 57 c \<or> is_space c \<or> is_hyphen c)"

text \<open>
  \<^verbatim>\<open>slugify(str)\<close>. \<^verbatim>\<open>String.prototype.toLowerCase\<close> belongs to the JavaScript runtime, not to
  this program: it is the parameter \<open>lc\<close>.
\<close>

definition slugify :: "(jsstring \<Rightarrow> jsstring) \<Rightarrow> jsstring \<Rightarrow> jsstring" where
  "slugify lc s =
     take 60
       (replace_runs is_hyphen (str ''-'')
         (replace_runs is_space (str ''-'')
           (trim
             (replace_class not_slug_input (str '''')
               (replace_class (between 241 241) (str ''n'')
                 (replace_class (between 249 252) (str ''u'')
                   (replace_class (between 242 246) (str ''o'')
                     (replace_class (between 236 239) (str ''i'')
                       (replace_class (between 232 235) (str ''e'')
                         (replace_class (between 224 229) (str ''a'') (lc s)))))))))))"

text \<open>
  The alphabet of a slug, \<^verbatim>\<open>[a-z0-9-]\<close>, and the strings with no two hyphens in a row.
\<close>

definition slug_char :: "nat \<Rightarrow> bool" where
  "slug_char c \<longleftrightarrow> between 97 122 c \<or> between 48 57 c \<or> is_hyphen c"

fun no_hyphen_pair :: "jsstring \<Rightarrow> bool" where
  "no_hyphen_pair (c # d # cs) = (\<not> (is_hyphen c \<and> is_hyphen d) \<and> no_hyphen_pair (d # cs))"
| "no_hyphen_pair cs = True"

text \<open>
  The steps of \<^verbatim>\<open>slugify\<close> as the specification words them, to compare the function with:
  the accented letters are mapped one code unit at a time, the code units outside
  \<^verbatim>\<open>[a-z0-9\s-]\<close> are dropped, white space is trimmed at both ends, every run of white
  space and then every run of hyphens becomes one hyphen, and the first 60 code units are kept.
\<close>

definition unaccent :: "nat \<Rightarrow> nat" where
  "unaccent c =
     (if between 224 229 c then 97
      else if between 232 235 c then 101
      else if between 236 239 c then 105
      else if between 242 246 c then 111
      else if between 249 252 c then 117
      else if c = 241 then 110
      else c)"

fun squeeze :: "(nat \<Rightarrow> bool) \<Rightarrow> jsstring \<Rightarrow> jsstring" where
  "squeeze p (c # d # cs) =
     (if p c then (if p d then squeeze p (d # cs) else 45 # squeeze p (d # cs))
      else c # squeeze p (d # cs))"
| "squeeze p [c] = [if p c then 45 else c]"
| "squeeze p [] = []"

definition slugify_spec :: "(jsstring \<Rightarrow> jsstring) \<Rightarrow> jsstring \<Rightarrow> jsstring" where
  "slugify_spec lc s =
     take 60
       (squeeze is_hyphen
         (squeeze is_space
           (trim
             (filter (\<lambda>c. between 97 122 c \<or> between 48 57 c \<or> is_space c \<or> is_hyphen c)
               (map unaccent (lc s))))))"

section \<open>The catalog and the requests\<close>

text \<open>
  The value of \<^verbatim>\<open>genreColors[genre]\<close>: a colour of the table, or a member that the object
  literal inherits from \<^verbatim>\<open>Object.prototype\<close>, which is not a string (a function, or the
  prototype itself).
\<close>

datatype color_value = Color jsstring | Inherited jsstring

text \<open>
  A book object of the catalog, with the fields the upload handler writes. The id is a number,
  or \<open>None\<close> when it is \<^verbatim>\<open>null\<close> or missing; the year likewise.
\<close>

record book =
  b_id :: "int option"
  b_title :: jsstring
  b_author :: jsstring
  b_genre :: jsstring
  b_year :: "int option"
  b_language :: jsstring
  b_size :: jsstring
  b_format :: jsstring
  b_description :: jsstring
  b_file :: jsstring
  b_color :: color_value
  b_uploadedAt :: jsstring

definition genreColors :: "(jsstring \<times> jsstring) list" where
  "genreColors =
    [(str ''Fiction'', str ''#9c3d2e''), (str ''Non-Fiction'', str ''#556b55''),
     (str ''Science'', str ''#3a4a5a''), (str ''History'', str ''#7a5a2a''),
     (str ''Philosophy'', str ''#4a5a7a''), (str ''Biography'', str ''#5a4570''),
     (str ''Poetry'', str ''#7a4a2a''), (str ''Children'', str ''#3a6b60''),
     (str ''Technology'', str ''#2a5a6a''), (str ''Religion & Spirituality'', str ''#6a5535''),
     (str ''Politics & Society'', str ''#5a3a5a''), (str ''Art & Culture'', str ''#6a3a4a''),
     (str ''Other'', str ''#4a4a4a'')]"

text \<open>The names every object literal inherits from \<^verbatim>\<open>Object.prototype\<close>.\<close>

definition object_prototype_names :: "jsstring list" where
  "object_prototype_names =
    [str ''constructor'', str ''__defineGetter__'', str ''__defineSetter__'',
     str ''hasOwnProperty'', str ''__lookupGetter__'', str ''__lookupSetter__'',
     str ''isPrototypeOf'', str ''propertyIsEnumerable'', str ''toString'', str ''valueOf'',
     str ''__proto__'', str ''toLocaleString'']"

text \<open>\<^verbatim>\<open>genreColors[genre]\<close>; \<open>None\<close> is \<^verbatim>\<open>undefined\<close>.\<close>

definition genreColors_get :: "jsstring \<Rightarrow> color_value option" where
  "genreColors_get g =
     (case map_of genreColors g of
        Some c \<Rightarrow> Some (Color c)
      | None \<Rightarrow> if g \<in> set object_prototype_names then Some (Inherited g) else None)"

text \<open>
  \<^verbatim>\<open>genreColors[genre] || '#4a4a4a'\<close>: every value of the table and every inherited member
  is truthy.
\<close>

definition color_of :: "jsstring \<Rightarrow> color_value" where
  "color_of g = (case genreColors_get g of Some v \<Rightarrow> v | None \<Rightarrow> Color (str ''#4a4a4a''))"

text \<open>
  \<^verbatim>\<open>(size / (1024 * 1024)).toFixed(1)\<close>. The quotient is exact in binary floating point,
  and \<^verbatim>\<open>toFixed(1)\<close> takes the integer \<open>n\<close> nearest to ten times it, the larger one at a tie.
\<close>

definition toFixed1_MB :: "nat \<Rightarrow> jsstring" where
  "toFixed1_MB bytes =
     (let n = (20 * bytes + 1048576) div 2097152
      in digits (n div 10) @ str ''.'' @ digits (n mod 10))"

record upload_file =
  originalname :: jsstring
  file_size :: nat
  buffer :: "nat list"

text \<open>
  An upload request after multipart decoding: \<^verbatim>\<open>req.file\<close> and the text fields of
  \<^verbatim>\<open>req.body\<close>, each a string or absent.
\<close>

record upload_request =
  req_file :: "upload_file option"
  title :: "jsstring option"
  author :: "jsstring option"
  genre :: "jsstring option"
  year :: "jsstring option"
  language :: "jsstring option"
  description :: "jsstring option"

text \<open>A delete request: \<^verbatim>\<open>req.headers.authorization\<close> and \<^verbatim>\<open>req.params.id\<close>.\<close>

record delete_request =
  authorization :: "jsstring option"
  id_param :: jsstring

text \<open>The body of a response: \<^verbatim>\<open>{success: false, error}\<close> or one of the successes.\<close>

datatype reply =
    Failure jsstring
  | Listing nat "book list"
  | Uploaded jsstring book nat
  | Removed jsstring book

datatype http_response = Response (status_code: nat) (reply: reply)

section \<open>The remote store\<close>

text \<open>
  The environment variables after start-up, defaults applied (\<^verbatim>\<open>GITHUB_BRANCH || 'main'\<close>,
  \<^verbatim>\<open>ADMIN_SECRET || 'changeme-admin-secret'\<close>).
\<close>

record config =
  GITHUB_TOKEN :: jsstring
  GITHUB_OWNER :: jsstring
  GITHUB_REPO :: jsstring
  GITHUB_BRANCH :: jsstring
  ADMIN_SECRET :: jsstring

datatype verb = GET | PUT

text \<open>
  What a write carries: the file's bytes, or the list of books. The encodings
  (\<^verbatim>\<open>JSON.stringify\<close>, base64) are left out.
\<close>

datatype payload = Blob "nat list" | Catalog "book list"

record put_body =
  message :: jsstring
  content :: payload
  branch :: jsstring
  sha :: "jsstring option"

record request =
  verb :: verb
  url :: jsstring
  headers :: "(jsstring \<times> jsstring) list"
  body :: "put_body option"

text \<open>
  What decoding and \<^verbatim>\<open>JSON.parse\<close> make of the \<^verbatim>\<open>content\<close> of a fetched document: they
  throw an error with some message, or give a value that is not an array, or an array of
  book objects.
\<close>

datatype catalog_doc = Unparsable jsstring | NotArray | Books "book list"

record gh_json =
  data_content :: catalog_doc
  data_sha :: "jsstring option"

text \<open>
  A response of the remote host: its status, its body as \<^verbatim>\<open>res.text()\<close> gives it, and what
  \<^verbatim>\<open>res.json()\<close> gives: an error with some message when the body is not JSON (\<open>Inl\<close>).
  A call to \<^verbatim>\<open>fetch\<close> may also be rejected, with the message of the error.
\<close>

record response =
  status :: nat
  body_text :: jsstring
  json :: "jsstring + gh_json"

datatype fetch_result = Rejected jsstring | Resolved response

definition ok :: "response \<Rightarrow> bool" where
  "ok res \<longleftrightarrow> 200 \<le> status res \<and> status res \<le> 299"

text \<open>
  What the program takes from its runtime: three library functions, the clock
  (\<^verbatim>\<open>new Date().toISOString()\<close>) and \<^verbatim>\<open>fetch\<close>, which answers a request from the state \<open>'w\<close>
  of the world outside and may change it.
\<close>

record 'w platform =
  toLowerCase :: "jsstring \<Rightarrow> jsstring"
  extname :: "jsstring \<Rightarrow> jsstring"
  parseInt :: "jsstring \<Rightarrow> int option"
  isoNow :: jsstring
  fetch :: "request \<Rightarrow> 'w \<Rightarrow> fetch_result \<times> 'w"

text \<open>
  The state a request handler runs in: the world outside, the calls made to the remote host
  with their results, oldest first, and the lines written to the console.
\<close>

record 'w state =
  world :: 'w
  calls :: "(request \<times> fetch_result) list"
  console :: "jsstring list"

text \<open>A thrown error: \<^verbatim>\<open>new Error(message)\<close>, or an error of multer with a \<^verbatim>\<open>code\<close>.\<close>

datatype exn = Error jsstring | CodedError jsstring jsstring

fun err_message :: "exn \<Rightarrow> jsstring" where
  "err_message (Error m) = m"
| "err_message (CodedError c m) = m"

fun err_code :: "exn \<Rightarrow> jsstring option" where
  "err_code (Error m) = None"
| "err_code (CodedError c m) = Some c"

text \<open>An \<^verbatim>\<open>async\<close> computation: it returns a value or throws, and changes the state.\<close>

type_synonym ('a, 'w) io = "'w state \<Rightarrow> (exn + 'a) \<times> 'w state"

definition ret :: "'a \<Rightarrow> ('a, 'w) io" where
  "ret x s = (Inr x, s)"

definition throw :: "exn \<Rightarrow> ('a, 'w) io" where
  "throw e s = (Inl e, s)"

definition bnd :: "('a, 'w) io \<Rightarrow> ('a \<Rightarrow> ('b, 'w) io) \<Rightarrow> ('b, 'w) io" where
  "bnd m f s = (case m s of (Inl e, s') \<Rightarrow> (Inl e, s') | (Inr x, s') \<Rightarrow> f x s')"

text \<open>\<^verbatim>\<open>try { m } catch (err) { h }\<close>, where the handler does not throw.\<close>

definition try_catch ::
  "('a, 'w) io \<Rightarrow> (exn \<Rightarrow> 'w state \<Rightarrow> 'a \<times> 'w state) \<Rightarrow> 'w state \<Rightarrow> 'a \<times> 'w state" where
  "try_catch m h s = (case m s of (Inl e, s') \<Rightarrow> h e s' | (Inr x, s') \<Rightarrow> (x, s'))"

text \<open>\<^verbatim>\<open>console.log\<close> and \<^verbatim>\<open>console.error\<close>\<close>

definition write_console :: "jsstring \<Rightarrow> 'w state \<Rightarrow> 'w state" where
  "write_console line s = s\<lparr>console := console s @ [line]\<rparr>"

definition console_log :: "jsstring \<Rightarrow> (unit, 'w) io" where
  "console_log line s = (Inr (), write_console line s)"

text \<open>\<^verbatim>\<open>await fetch(url, options)\<close>\<close>

definition fetch_call :: "'w platform \<Rightarrow> request \<Rightarrow> (response, 'w) io" where
  "fetch_call P rq s =
     (case fetch P rq (world s) of (r, w') \<Rightarrow>
        (case r of Rejected m \<Rightarrow> Inl (Error m) | Resolved res \<Rightarrow> Inr res,
         s\<lparr>world := w', calls := calls s @ [(rq, r)]\<rparr>))"

definition GH_API :: jsstring where
  "GH_API = str ''https://api.github.com''"

definition ghHeaders :: "config \<Rightarrow> (jsstring \<times> jsstring) list" where
  "ghHeaders cfg =
    [(str ''Authorization'', str ''Bearer '' @ GITHUB_TOKEN cfg),
     (str ''Accept'', str ''application/vnd.github+json''),
     (str ''X-GitHub-Api-Version'', str ''2022-11-28''),
     (str ''Content-Type'', str ''application/json''),
     (str ''User-Agent'', str ''PageVault-Server/1.0'')]"

definition contents_url :: "config \<Rightarrow> jsstring \<Rightarrow> jsstring" where
  "contents_url cfg filePath =
     GH_API @ str ''/repos/'' @ GITHUB_OWNER cfg @ str ''/'' @ GITHUB_REPO cfg @
     str ''/contents/'' @ filePath"

definition get_request :: "config \<Rightarrow> jsstring \<Rightarrow> request" where
  "get_request cfg filePath =
     \<lparr>verb = GET, url = contents_url cfg filePath @ str ''?ref='' @ GITHUB_BRANCH cfg,
      headers = ghHeaders cfg, body = None\<rparr>"

definition put_request :: "config \<Rightarrow> jsstring \<Rightarrow> put_body \<Rightarrow> request" where
  "put_request cfg filePath b =
     \<lparr>verb = PUT, url = contents_url cfg filePath, headers = ghHeaders cfg, body = Some b\<rparr>"

definition getFileSHA :: "'w platform \<Rightarrow> config \<Rightarrow> jsstring \<Rightarrow> (jsstring option, 'w) io" where
  "getFileSHA P cfg filePath =
     bnd (fetch_call P (get_request cfg filePath)) (\<lambda>res.
       if status res = 404 then ret None
       else if \<not> ok res then
         throw (Error (str ''GitHub SHA error: '' @ digits (status res) @ str '' '' @ body_text res))
       else (case json res of Inl m \<Rightarrow> throw (Error m) | Inr data \<Rightarrow> ret (data_sha data)))"

text \<open>
  \<^verbatim>\<open>commitFileToGitHub(filePath, content, message, sha = null)\<close>: the body carries
  \<^verbatim>\<open>sha\<close> when the argument is truthy (\<^verbatim>\<open>...(sha ? { sha } : {})\<close>).
\<close>

definition commitFileToGitHub ::
  "'w platform \<Rightarrow> config \<Rightarrow> jsstring \<Rightarrow> payload \<Rightarrow> jsstring \<Rightarrow> jsstring option \<Rightarrow> (gh_json, 'w) io" where
  "commitFileToGitHub P cfg filePath c msg sh =
     bnd (fetch_call P (put_request cfg filePath
            \<lparr>message = msg, content = c, branch = GITHUB_BRANCH cfg,
             sha = (if truthy sh then sh else None)\<rparr>)) (\<lambda>res.
       if \<not> ok res then
         throw (Error (str ''GitHub commit failed ('' @ digits (status res) @ str ''): '' @
                       body_text res))
       else (case json res of Inl m \<Rightarrow> throw (Error m) | Inr data \<Rightarrow> ret data))"

definition getBooksJson :: "'w platform \<Rightarrow> config \<Rightarrow> (book list \<times> jsstring option, 'w) io" where
  "getBooksJson P cfg =
     bnd (fetch_call P (get_request cfg (str ''books.json''))) (\<lambda>res.
       if status res = 404 then ret ([], None)
       else if \<not> ok res then
         throw (Error (str ''Failed to fetch books.json: '' @ digits (status res)))
       else (case json res of
               Inl m \<Rightarrow> throw (Error m)
             | Inr data \<Rightarrow>
                 (case data_content data of
                    Unparsable m \<Rightarrow> throw (Error m)
                  | NotArray \<Rightarrow> ret ([], data_sha data)
                  | Books books \<Rightarrow> ret (books, data_sha data))))"

text \<open>The commit message has an em dash, U+2014.\<close>

definition saveBooksJson ::
  "'w platform \<Rightarrow> config \<Rightarrow> book list \<Rightarrow> jsstring option \<Rightarrow> (gh_json, 'w) io" where
  "saveBooksJson P cfg books sh =
     commitFileToGitHub P cfg (str ''books.json'') (Catalog books)
       (str ''Update catalog '' @ [8212] @ str '' '' @ digits (length books) @ str '' books'') sh"

section \<open>The routes\<close>

text \<open>
  The file filter and the size limit of multer, applied before the upload handler; an error
  goes to the error-handling middleware.
\<close>

text \<open>\<^verbatim>\<open>path.extname(file.originalname).toLowerCase()\<close>\<close>

definition file_ext :: "'w platform \<Rightarrow> upload_file \<Rightarrow> jsstring" where
  "file_ext P f = toLowerCase P (extname P (originalname f))"

definition fileFilter :: "'w platform \<Rightarrow> upload_file \<Rightarrow> exn + unit" where
  "fileFilter P f =
     (let ext = file_ext P f
      in if ext = str ''.pdf'' \<or> ext = str ''.epub'' then Inr ()
         else Inl (Error (str ''Only PDF and EPUB files are accepted.'')))"

definition upload_single :: "'w platform \<Rightarrow> upload_request \<Rightarrow> exn + upload_request" where
  "upload_single P rq =
     (case req_file rq of
        None \<Rightarrow> Inr rq
      | Some f \<Rightarrow>
          (case fileFilter P f of
             Inl e \<Rightarrow> Inl e
           | Inr u \<Rightarrow>
               if 50 * 1024 * 1024 < file_size f
               then Inl (CodedError (str ''LIMIT_FILE_SIZE'') (str ''File too large''))
               else Inr rq))"

definition errorHandler :: "exn \<Rightarrow> 'w state \<Rightarrow> http_response \<times> 'w state" where
  "errorHandler err s =
     (if err_code err = Some (str ''LIMIT_FILE_SIZE'')
      then (Response 400 (Failure (str ''File too large. Max 50 MB.'')), s)
      else if includes_str (err_message err) (str ''Only PDF'')
      then (Response 400 (Failure (err_message err)), s)
      else (Response 500 (Failure (str ''Internal server error.'')),
            write_console (str ''Unhandled error: '' @ err_message err) s))"

text \<open>
  The next id of an upload: \<^verbatim>\<open>books.length > 0 ? Math.max(...books.map(b => b.id || 0)) + 1 : 1\<close>.
  A number of JavaScript is an IEEE double. An id is modelled by an integer, the value of a
  double that is a whole number; \<open>None\<close> stands for a value that is \<^verbatim>\<open>null\<close> or absent in
  the catalog document (and for the \<^verbatim>\<open>-Infinity\<close> of \<^verbatim>\<open>Math.max()\<close>, which is stored as
  \<^verbatim>\<open>null\<close>). \<^verbatim>\<open>Math.max\<close> returns one of its arguments, so it is exact. The sum \<^verbatim>\<open>m + 1\<close>
  for a double \<open>m\<close> is the double nearest to the exact sum, the one with the even significand on a tie: it is
  exact from \<open>-2^53\<close> to \<open>2^53 - 1\<close>; where the magnitude of \<open>m\<close> is from \<open>2^53\<close> to below
  \<open>2^54\<close> the doubles are the even integers and the exact sum lies midway between two of
  them, of which the multiple of 4 is taken; beyond, the doubles are multiples of 4 at least
  and the sum is \<open>m\<close> itself.
\<close>

definition plus_1 :: "int \<Rightarrow> int" where
  "plus_1 m =
     (if - 9007199254740992 \<le> m \<and> m < 9007199254740992 then m + 1
      else if - 18014398509481984 < m \<and> m < 18014398509481984
      then (if m mod 4 = 0 then m else m + 2)
      else m)"

fun or0 :: "int option \<Rightarrow> int" where
  "or0 None = 0"
| "or0 (Some n) = n"

fun math_max :: "int list \<Rightarrow> int option" where
  "math_max [] = None"
| "math_max (x # xs) = Some (fold max xs x)"

definition nextId :: "book list \<Rightarrow> int option" where
  "nextId books =
     (if length books > 0 then map_option plus_1 (math_max (map (\<lambda>b. or0 (b_id b)) books))
      else Some 1)"

text \<open>\<^verbatim>\<open>x || d\<close> for a string \<open>x\<close> that may be absent.\<close>

fun or_default :: "jsstring option \<Rightarrow> jsstring \<Rightarrow> jsstring" where
  "or_default None d = d"
| "or_default (Some x) d = (if x = [] then d else x)"

text \<open>The object \<^verbatim>\<open>newBook\<close> of the upload handler, from its local variables.\<close>

definition newBook ::
  "'w platform \<Rightarrow> upload_request \<Rightarrow> jsstring \<Rightarrow> jsstring \<Rightarrow> jsstring \<Rightarrow> int option \<Rightarrow>
     jsstring \<Rightarrow> jsstring \<Rightarrow> jsstring \<Rightarrow> book" where
  "newBook P rq t a g next_id fileSize fmt filePath =
     \<lparr>b_id = next_id,
      b_title = trim t,
      b_author = trim a,
      b_genre = trim g,
      b_year = (case year rq of
                  None \<Rightarrow> None
                | Some y \<Rightarrow> if y = [] then None else parseInt P y),
      b_language = trim (or_default (language rq) (str ''English'')),
      b_size = fileSize,
      b_format = fmt,
      b_description = trim (or_default (description rq) []),
      b_file = filePath,
      b_color = color_of g,
      b_uploadedAt = isoNow P\<rparr>"

text \<open>
  The local variables \<^verbatim>\<open>format\<close>, \<^verbatim>\<open>filePath\<close> (through \<^verbatim>\<open>filename\<close>) and \<^verbatim>\<open>fileSize\<close>
  of the upload handler.
\<close>

definition format_of :: "jsstring \<Rightarrow> jsstring" where
  "format_of ext = (if ext = str ''.epub'' then str ''EPUB'' else str ''PDF'')"

definition filePath_of :: "'w platform \<Rightarrow> upload_file \<Rightarrow> jsstring \<Rightarrow> jsstring \<Rightarrow> jsstring" where
  "filePath_of P f t a =
     (let filename = slugify (toLowerCase P) t @ str ''-'' @ slugify (toLowerCase P) a @ file_ext P f
      in str ''books/'' @ filename)"

definition fileSize_of :: "upload_file \<Rightarrow> jsstring" where
  "fileSize_of f = toFixed1_MB (file_size f) @ str '' MB''"

text \<open>
  The part of the upload handler after validation, with the file and the three required
  fields at hand.
\<close>

definition upload_steps ::
  "'w platform \<Rightarrow> config \<Rightarrow> upload_request \<Rightarrow> upload_file \<Rightarrow> jsstring \<Rightarrow> jsstring \<Rightarrow> jsstring \<Rightarrow>
     (http_response, 'w) io" where
  "upload_steps P cfg rq f t a g =
     (let ext = file_ext P f;
          fmt = format_of ext;
          filePath = filePath_of P f t a;
          fileSize = fileSize_of f
      in
        bnd (console_log (str ''Uploading: '' @ filePath @ str '' ('' @ fileSize @ str '')''))
          (\<lambda>logged.
        bnd (getFileSHA P cfg filePath) (\<lambda>existingSHA.
        bnd (commitFileToGitHub P cfg filePath (Blob (buffer f))
               (str ''Add: '' @ t @ str '' by '' @ a) existingSHA) (\<lambda>committed.
        bnd (getBooksJson P cfg) (\<lambda>(books, booksSHA).
          let book = newBook P rq t a g (nextId books) fileSize fmt filePath;
              books' = books @ [book]
          in
        bnd (saveBooksJson P cfg books' booksSHA) (\<lambda>saved.
        bnd (console_log ([34] @ t @ [34] @ str '' added. Total: '' @ digits (length books')))
          (\<lambda>logged'.
        ret (Response 200
               (Uploaded ([34] @ t @ [34] @ str '' has been added to the library!'')
                  book (length books'))))))))))"

text \<open>\<^verbatim>\<open>app.post('/api/upload', ...)\<close>: the handler, then the route with multer before it.\<close>

definition upload_handler ::
  "'w platform \<Rightarrow> config \<Rightarrow> upload_request \<Rightarrow> 'w state \<Rightarrow> http_response \<times> 'w state" where
  "upload_handler P cfg rq =
     try_catch
       (case req_file rq of
          None \<Rightarrow> ret (Response 400 (Failure (str ''No file uploaded.'')))
        | Some f \<Rightarrow>
            (case title rq of
               None \<Rightarrow> ret (Response 400 (Failure (str ''Title is required.'')))
             | Some t \<Rightarrow>
                 if t = [] then ret (Response 400 (Failure (str ''Title is required.'')))
                 else
                   (case author rq of
                      None \<Rightarrow> ret (Response 400 (Failure (str ''Author is required.'')))
                    | Some a \<Rightarrow>
                        if a = [] then ret (Response 400 (Failure (str ''Author is required.'')))
                        else
                          (case genre rq of
                             None \<Rightarrow> ret (Response 400 (Failure (str ''Genre is required.'')))
                           | Some g \<Rightarrow>
                               if g = []
                               then ret (Response 400 (Failure (str ''Genre is required.'')))
                               else upload_steps P cfg rq f t a g))))
       (\<lambda>err s.
          (Response 500
             (Failure (if err_message err \<noteq> [] then err_message err
                       else str ''Upload failed. Please try again.'')),
           write_console (str ''POST /api/upload: '' @ err_message err) s))"

definition post_api_upload ::
  "'w platform \<Rightarrow> config \<Rightarrow> upload_request \<Rightarrow> 'w state \<Rightarrow> http_response \<times> 'w state" where
  "post_api_upload P cfg rq s =
     (case upload_single P rq of
        Inl err \<Rightarrow> errorHandler err s
      | Inr rq' \<Rightarrow> upload_handler P cfg rq' s)"

text \<open>
  \<^verbatim>\<open>books.findIndex(b => b.id === id)\<close>, with \<open>None\<close> for \<open>-1\<close>. The id of the request is
  \<open>None\<close> when \<^verbatim>\<open>parseInt\<close> gives \<^verbatim>\<open>NaN\<close>, which equals nothing; a book without a number as
  id never matches.
\<close>

fun same_id :: "int option \<Rightarrow> book \<Rightarrow> bool" where
  "same_id None b = False"
| "same_id (Some n) b = (case b_id b of None \<Rightarrow> False | Some m \<Rightarrow> m = n)"

fun findIndex :: "('a \<Rightarrow> bool) \<Rightarrow> 'a list \<Rightarrow> nat option" where
  "findIndex p [] = None"
| "findIndex p (x # xs) = (if p x then Some 0 else map_option Suc (findIndex p xs))"

text \<open>\<^verbatim>\<open>app.delete('/api/books/:id', ...)\<close>\<close>

definition delete_handler ::
  "'w platform \<Rightarrow> config \<Rightarrow> delete_request \<Rightarrow> 'w state \<Rightarrow> http_response \<times> 'w state" where
  "delete_handler P cfg rq s =
     (if authorization rq \<noteq> Some (str ''Bearer '' @ ADMIN_SECRET cfg)
      then (Response 401 (Failure (str ''Unauthorized.'')), s)
      else
        try_catch
          (bnd (getBooksJson P cfg) (\<lambda>(books, sh).
             case findIndex (same_id (parseInt P (id_param rq))) books of
               None \<Rightarrow> ret (Response 404 (Failure (str ''Book not found.'')))
             | Some idx \<Rightarrow>
                 (let removed = books ! idx;
                      books' = take idx books @ drop (Suc idx) books
                  in bnd (saveBooksJson P cfg books' sh) (\<lambda>saved.
                       ret (Response 200
                              (Removed ([34] @ b_title removed @ [34] @ str '' removed.'')
                                 removed))))))
          (\<lambda>err s'.
             (Response 500 (Failure (err_message err)),
              write_console (str ''DELETE /api/books: '' @ err_message err) s'))
          s)"

text \<open>\<^verbatim>\<open>app.get('/api/books', ...)\<close>\<close>

definition get_api_books ::
  "'w platform \<Rightarrow> config \<Rightarrow> 'w state \<Rightarrow> http_response \<times> 'w state" where
  "get_api_books P cfg =
     try_catch
       (bnd (getBooksJson P cfg) (\<lambda>(books, sh).
          ret (Response 200 (Listing (length books) books))))
       (\<lambda>err s.
          (Response 500 (Failure (str ''Failed to fetch books catalog.'')),
           write_console (str ''GET /api/books: '' @ err_message err) s))"

section \<open>A runtime to evaluate examples with\<close>

text \<open>
  A \<^verbatim>\<open>toLowerCase\<close> to evaluate examples with: the lower-case mapping of Unicode on the
  Basic Latin and Latin-1 Supplement blocks (A to Z, and U+00C0 to U+00DE except the
  multiplication sign U+00D7, move up by 32). Code units above U+00FF are left as they are, so
  it is the runtime's function on strings of those two blocks only.
\<close>

definition lower_unit :: "nat \<Rightarrow> nat" where
  "lower_unit c = (if between 65 90 c \<or> (between 192 222 c \<and> c \<noteq> 215) then c + 32 else c)"

definition latin1_toLowerCase :: "jsstring \<Rightarrow> jsstring" where
  "latin1_toLowerCase s = map lower_unit s"

text \<open>
  \<^verbatim>\<open>path.extname\<close> of Node.js on POSIX: one pass over the path from its end, which stops at
  the first slash that follows the last path segment.
\<close>

record ext_scan =
  startDot :: int
  startPart :: int
  end_ix :: int
  matchedSlash :: bool
  preDotState :: int

fun extname_loop :: "jsstring \<Rightarrow> nat \<Rightarrow> ext_scan \<Rightarrow> ext_scan" where
  "extname_loop path 0 st = st"
| "extname_loop path (Suc i) st =
     (let code = path ! i
      in if code = 47 then
           (if \<not> matchedSlash st then st\<lparr>startPart := int i + 1\<rparr>
            else extname_loop path i st)
         else
           (let st1 = (if end_ix st = - 1 then st\<lparr>end_ix := int i + 1, matchedSlash := False\<rparr>
                       else st);
                st2 = (if code = 46 then
                         (if startDot st1 = - 1 then st1\<lparr>startDot := int i\<rparr>
                          else if preDotState st1 \<noteq> 1 then st1\<lparr>preDotState := 1\<rparr>
                          else st1)
                       else if startDot st1 \<noteq> - 1 then st1\<lparr>preDotState := - 1\<rparr>
                       else st1)
            in extname_loop path i st2))"

definition posix_extname :: "jsstring \<Rightarrow> jsstring" where
  "posix_extname path =
     (let st = extname_loop path (length path)
                 \<lparr>startDot = - 1, startPart = 0, end_ix = - 1, matchedSlash = True,
                  preDotState = 0\<rparr>
      in if startDot st = - 1 \<or> end_ix st = - 1 \<or> preDotState st = 0 \<or>
            (preDotState st = 1 \<and> startDot st = end_ix st - 1 \<and> startDot st = startPart st + 1)
         then []
         else drop (nat (startDot st)) (take (nat (end_ix st)) path))"

text \<open>
  \<^verbatim>\<open>parseInt(s)\<close> without a radix: white space is skipped, then a sign, then \<^verbatim>\<open>0x\<close> or
  \<^verbatim>\<open>0X\<close> selects radix 16, and the longest run of digits is read; \<open>None\<close> is \<^verbatim>\<open>NaN\<close>.
\<close>

definition digit_value :: "nat \<Rightarrow> nat option" where
  "digit_value c =
     (if between 48 57 c then Some (c - 48)
      else if between 97 122 c then Some (c - 87)
      else if between 65 90 c then Some (c - 55)
      else None)"

definition is_digit_of :: "nat \<Rightarrow> nat \<Rightarrow> bool" where
  "is_digit_of radix c = (case digit_value c of None \<Rightarrow> False | Some d \<Rightarrow> d < radix)"

definition js_parseInt :: "jsstring \<Rightarrow> int option" where
  "js_parseInt s =
     (let s1 = dropWhile is_space s;
          sign = (if s1 \<noteq> [] \<and> hd s1 = 45 then - 1 else 1 :: int);
          s2 = (if s1 \<noteq> [] \<and> (hd s1 = 45 \<or> hd s1 = 43) then tl s1 else s1);
          hex = (2 \<le> length s2 \<and> s2 ! 0 = 48 \<and> (s2 ! 1 = 120 \<or> s2 ! 1 = 88));
          radix = (if hex then 16 else 10);
          s3 = (if hex then drop 2 s2 else s2);
          ds = takeWhile (is_digit_of radix) s3
      in if ds = [] then None
         else Some (sign * int (foldl (\<lambda>n c. n * radix + (case digit_value c of Some d \<Rightarrow> d | None \<Rightarrow> 0))
                                  0 ds)))"

text \<open>
  A remote host that answers from a script, whatever the request: the world is the list of
  results still to come, and a call made after the last one is rejected.
\<close>

fun scripted_fetch :: "request \<Rightarrow> fetch_result list \<Rightarrow> fetch_result \<times> fetch_result list" where
  "scripted_fetch rq [] = (Rejected (str ''fetch failed''), [])"
| "scripted_fetch rq (r # rs) = (r, rs)"

definition scripted :: "fetch_result list platform" where
  "scripted =
     \<lparr>toLowerCase = latin1_toLowerCase, extname = posix_extname, parseInt = js_parseInt,
      isoNow = str ''2024-05-01T12:00:00.000Z'', fetch = scripted_fetch\<rparr>"

definition start :: "'w \<Rightarrow> 'w state" where
  "start w = \<lparr>world = w, calls = [], console = []\<rparr>"

definition demo_config :: config where
  "demo_config =
     \<lparr>GITHUB_TOKEN = str ''t0ken'', GITHUB_OWNER = str ''octo'', GITHUB_REPO = str ''Pages'',
      GITHUB_BRANCH = str ''main'', ADMIN_SECRET = str ''changeme-admin-secret''\<rparr>"

section \<open>Reading a run\<close>

text \<open>
  The notions the properties below are stated with. The calls a handler made are those its
  final state has beyond the ones of its starting state.
\<close>

definition new_calls :: "'w state \<Rightarrow> 'w state \<Rightarrow> (request \<times> fetch_result) list" where
  "new_calls s s' = drop (length (calls s)) (calls s')"

text \<open>
  What the result of a fetch of the catalog document says: the books (none when the document
  is absent), the revision token (none when the document is absent), whether the catalog could
  be read at all, and whether the document is there but cannot be parsed.
\<close>

fun catalog_books :: "fetch_result \<Rightarrow> book list" where
  "catalog_books (Rejected m) = []"
| "catalog_books (Resolved res) =
     (if status res = 404 \<or> \<not> ok res then []
      else (case json res of
              Inl m \<Rightarrow> []
            | Inr d \<Rightarrow>
                (case data_content d of Unparsable m \<Rightarrow> [] | NotArray \<Rightarrow> [] | Books bs \<Rightarrow> bs)))"

fun catalog_token :: "fetch_result \<Rightarrow> jsstring option" where
  "catalog_token (Rejected m) = None"
| "catalog_token (Resolved res) =
     (if status res = 404 \<or> \<not> ok res then None
      else (case json res of Inl m \<Rightarrow> None | Inr d \<Rightarrow> data_sha d))"

fun catalog_unparsable :: "fetch_result \<Rightarrow> bool" where
  "catalog_unparsable (Rejected m) = False"
| "catalog_unparsable (Resolved res) =
     (status res \<noteq> 404 \<and> ok res \<and>
      (case json res of
         Inl m \<Rightarrow> True
       | Inr d \<Rightarrow> (case data_content d of Unparsable m \<Rightarrow> True | NotArray \<Rightarrow> False | Books bs \<Rightarrow> False)))"

fun catalog_read :: "fetch_result \<Rightarrow> bool" where
  "catalog_read (Rejected m) = False"
| "catalog_read (Resolved res) =
     (status res = 404 \<or>
      (ok res \<and>
       (case json res of
          Inl m \<Rightarrow> False
        | Inr d \<Rightarrow> (case data_content d of Unparsable m \<Rightarrow> False | NotArray \<Rightarrow> True | Books bs \<Rightarrow> True))))"

text \<open>A write of the catalog document, and the revision token a request presents.\<close>

definition catalog_write :: "config \<Rightarrow> request \<Rightarrow> bool" where
  "catalog_write cfg rq \<longleftrightarrow> verb rq = PUT \<and> url rq = contents_url cfg (str ''books.json'')"

definition sha_presented :: "request \<Rightarrow> jsstring option" where
  "sha_presented rq = (case body rq of None \<Rightarrow> None | Some b \<Rightarrow> sha b)"

text \<open>
  The catalog a request writes, if it writes one, and a result by which the store accepted a
  write: a response with a status from 200 to 299.
\<close>

definition catalog_written :: "request \<Rightarrow> book list option" where
  "catalog_written rq =
     (case body rq of
        None \<Rightarrow> None
      | Some b \<Rightarrow> (case content b of Blob bytes \<Rightarrow> None | Catalog bs \<Rightarrow> Some bs))"

fun accepted :: "fetch_result \<Rightarrow> bool" where
  "accepted (Rejected m) = False"
| "accepted (Resolved res) = ok res"

text \<open>
  What the code does on a list of calls: every write of the catalog comes right after a fetch
  of the catalog that could be read, and presents the token of that fetch when it is a
  non-empty string, and no token otherwise.
\<close>

fun cycles_ok ::
  "config \<Rightarrow> (request \<times> fetch_result) option \<Rightarrow> (request \<times> fetch_result) list \<Rightarrow> bool" where
  "cycles_ok cfg prev [] = True"
| "cycles_ok cfg prev (c # cs) =
     ((if catalog_write cfg (fst c)
       then (case prev of
               None \<Rightarrow> False
             | Some p \<Rightarrow>
                 fst p = get_request cfg (str ''books.json'') \<and> catalog_read (snd p) \<and>
                 sha_presented (fst c) =
                   (if truthy (catalog_token (snd p)) then catalog_token (snd p) else None))
       else True) \<and>
      cycles_ok cfg (Some c) cs)"

text \<open>
  The side of the store. The contents API answers the fetch of a file that exists with the
  revision token of the file, its blob SHA of forty hexadecimal digits: a fetch answered with
  success carries a token that is a non-empty string. A run is one against such a store when
  every answer to a fetch of the catalog document in it is of that kind.
\<close>

fun token_given :: "fetch_result \<Rightarrow> bool" where
  "token_given (Rejected m) = True"
| "token_given (Resolved res) =
     (if status res = 404 \<or> \<not> ok res then True
      else (case json res of Inl m \<Rightarrow> True | Inr d \<Rightarrow> truthy (data_sha d)))"

fun store_tokens :: "config \<Rightarrow> (request \<times> fetch_result) list \<Rightarrow> bool" where
  "store_tokens cfg [] = True"
| "store_tokens cfg (c # cs) =
     ((if fst c = get_request cfg (str ''books.json'') then token_given (snd c) else True) \<and>
      store_tokens cfg cs)"

text \<open>
  The discipline of revision tokens on a list of calls: every write of the catalog comes right
  after a fetch of the catalog and presents exactly the token that fetch returned; a write
  that presents no token comes only after a fetch that reported the catalog absent.
\<close>

fun catalog_absent :: "fetch_result \<Rightarrow> bool" where
  "catalog_absent (Rejected m) = False"
| "catalog_absent (Resolved res) = (status res = 404)"

fun presents_fetched_token ::
  "config \<Rightarrow> (request \<times> fetch_result) option \<Rightarrow> (request \<times> fetch_result) list \<Rightarrow> bool" where
  "presents_fetched_token cfg prev [] = True"
| "presents_fetched_token cfg prev (c # cs) =
     ((if catalog_write cfg (fst c)
       then (case prev of
               None \<Rightarrow> False
             | Some p \<Rightarrow>
                 fst p = get_request cfg (str ''books.json'') \<and>
                 sha_presented (fst c) = catalog_token (snd p) \<and>
                 (if sha_presented (fst c) = None then catalog_absent (snd p) else True))
       else True) \<and>
      presents_fetched_token cfg (Some c) cs)"

text \<open>
  A book whose id is a positive integer, a book whose id is a safe integer (one of magnitude
  below \<open>2^53\<close>, \<^verbatim>\<open>Number.isSafeInteger\<close>), a book whose id is a number below the id of
  another, and the book of a successful upload.
\<close>

definition positive_id :: "book \<Rightarrow> bool" where
  "positive_id b = (case b_id b of None \<Rightarrow> False | Some n \<Rightarrow> 0 < n)"

definition safe_id :: "book \<Rightarrow> bool" where
  "safe_id b =
     (case b_id b of
        None \<Rightarrow> False
      | Some n \<Rightarrow> - 9007199254740992 < n \<and> n < 9007199254740992)"

definition id_below :: "book \<Rightarrow> book \<Rightarrow> bool" where
  "id_below b b' =
     (case b_id b of
        None \<Rightarrow> False
      | Some n \<Rightarrow> (case b_id b' of None \<Rightarrow> False | Some m \<Rightarrow> n < m))"

fun uploaded_book :: "http_response \<Rightarrow> book option" where
  "uploaded_book (Response c (Uploaded m b n)) = Some b"
| "uploaded_book (Response c other) = None"

section \<open>Example data\<close>

definition ok_response :: "jsstring option \<Rightarrow> catalog_doc \<Rightarrow> fetch_result" where
  "ok_response sh d =
     Resolved \<lparr>status = 200, body_text = str ''{}'',
               json = Inr \<lparr>data_content = d, data_sha = sh\<rparr>\<rparr>"

definition not_found :: fetch_result where
  "not_found =
     Resolved \<lparr>status = 404, body_text = str ''Not Found'',
               json = Inr \<lparr>data_content = NotArray, data_sha = None\<rparr>\<rparr>"

definition conflict :: fetch_result where
  "conflict =
     Resolved \<lparr>status = 409, body_text = str ''books.json does not match 5f2a'',
               json = Inr \<lparr>data_content = NotArray, data_sha = None\<rparr>\<rparr>"

definition moby_file :: upload_file where
  "moby_file = \<lparr>originalname = str ''Moby-Dick.PDF'', file_size = 1572864, buffer = [37, 80, 68, 70]\<rparr>"

definition empty_file :: upload_file where
  "empty_file = \<lparr>originalname = str ''Moby-Dick.PDF'', file_size = 0, buffer = []\<rparr>"

definition moby :: upload_request where
  "moby =
     \<lparr>req_file = Some moby_file, title = Some (str ''Moby Dick''),
      author = Some (str ''Herman Melville''), genre = Some (str ''Fiction''),
      year = Some (str ''1851''), language = None, description = None\<rparr>"

definition old_book :: book where
  "old_book =
     \<lparr>b_id = Some 7, b_title = str ''Emma'', b_author = str ''Jane Austen'',
      b_genre = str ''Fiction'', b_year = Some 1815, b_language = str ''English'',
      b_size = str ''0.9 MB'', b_format = str ''EPUB'', b_description = str '''',
      b_file = str ''books/emma-jane-austen.epub'', b_color = Color (str ''#9c3d2e''),
      b_uploadedAt = str ''2024-04-01T08:30:00.000Z''\<rparr>"

definition admin_delete :: "jsstring \<Rightarrow> delete_request" where
  "admin_delete i = \<lparr>authorization = Some (str ''Bearer changeme-admin-secret''), id_param = i\<rparr>"

section \<open>Properties of the identity deriver\<close>

lemma str_simps: "str [] = []" "str (c # cs) = of_char c # str cs"
  by (simp_all add: str_def)

lemma replace_class_id: "\<forall>c\<in>set s. \<not> p c \<Longrightarrow> replace_class p rep s = s"
  by (induction s) (auto simp: replace_class_def)

lemma replace_class_set:
  "set (replace_class p [] s) = {c \<in> set s. \<not> p c}"
  by (induction s) (auto simp: replace_class_def)

lemma dropWhile_none: "\<forall>c\<in>set s. \<not> p c \<Longrightarrow> dropWhile p s = s"
  by (cases s) auto

lemma trim_id: "\<forall>c\<in>set s. \<not> is_space c \<Longrightarrow> trim s = s"
  by (simp add: trim_def dropWhile_none)

lemma set_trim: "set (trim s) \<subseteq> set s"
  by (auto simp: trim_def dest!: set_dropWhileD)

lemma replace_runs_id: "\<forall>c\<in>set s. \<not> p c \<Longrightarrow> replace_runs p rep s = s"
  by (induction s) auto

lemma replace_runs_set:
  "set (replace_runs p rep s) \<subseteq> set rep \<union> {c \<in> set s. \<not> p c}"
proof (induction p rep s rule: replace_runs.induct)
  case (1 p rep)
  then show ?case by simp
next
  case (2 p rep c cs)
  show ?case
  proof (cases "p c")
    case True
    with 2 show ?thesis using set_dropWhileD[of _ p cs] by auto
  next
    case False
    with 2 show ?thesis by auto
  qed
qed

lemma replace_runs_hd:
  "replace_runs p [h] s = y # ys \<Longrightarrow> s \<noteq> [] \<and> (if p (hd s) then y = h else y = hd s)"
  by (cases s) (auto split: if_splits)

lemma no_hyphen_pair_Cons:
  "no_hyphen_pair (c # cs) \<longleftrightarrow> (cs = [] \<or> \<not> (is_hyphen c \<and> is_hyphen (hd cs))) \<and> no_hyphen_pair cs"
  by (cases cs) auto

lemma dropWhile_hd: "dropWhile p s = y # ys \<Longrightarrow> \<not> p y"
  by (metis hd_dropWhile list.distinct(1) list.sel(1))

lemma replace_runs_no_hyphen_pair:
  "no_hyphen_pair (replace_runs is_hyphen [45] s)"
proof (induction is_hyphen "[45::nat]" s rule: replace_runs.induct)
  case 1
  then show ?case by simp
next
  case (2 c cs)
  show ?case
  proof (cases "is_hyphen c")
    case True
    let ?r = "replace_runs is_hyphen [45] (dropWhile is_hyphen cs)"
    have ih: "no_hyphen_pair ?r" using 2 True by simp
    have "?r = [] \<or> \<not> is_hyphen (hd ?r)"
    proof (cases ?r)
      case Nil then show ?thesis by simp
    next
      case (Cons y ys)
      from replace_runs_hd[OF Cons] obtain z zs where d: "dropWhile is_hyphen cs = z # zs"
        by (cases "dropWhile is_hyphen cs") auto
      then have "\<not> is_hyphen z" by (rule dropWhile_hd)
      with replace_runs_hd[OF Cons] d Cons show ?thesis by simp
    qed
    with ih True show ?thesis by (simp add: no_hyphen_pair_Cons)
  next
    case False
    with 2 show ?thesis by (simp add: no_hyphen_pair_Cons)
  qed
qed

lemma no_hyphen_pair_take: "no_hyphen_pair s \<Longrightarrow> no_hyphen_pair (take n s)"
proof (induction s arbitrary: n rule: no_hyphen_pair.induct)
  case (1 c d cs)
  show ?case
  proof (cases n)
    case 0 then show ?thesis by simp
  next
    case (Suc m)
    show ?thesis
    proof (cases m)
      case 0
      with Suc show ?thesis by simp
    next
      case (Suc k)
      from 1(2) have "no_hyphen_pair (d # cs)" by simp
      then have "no_hyphen_pair (take (Suc k) (d # cs))" by (rule 1(1))
      with 1(2) Suc \<open>n = Suc m\<close> show ?thesis by simp
    qed
  qed
qed (simp_all add: take_Cons')

lemma replace_runs_hyphen_id:
  "no_hyphen_pair s \<Longrightarrow> replace_runs is_hyphen [45] s = s"
  by (induction s rule: no_hyphen_pair.induct) (auto simp: is_hyphen_def)


lemma slug_char_not_class:
  "slug_char c \<Longrightarrow> \<not> between 224 229 c \<and> \<not> between 232 235 c \<and> \<not> between 236 239 c \<and>
     \<not> between 242 246 c \<and> \<not> between 249 252 c \<and> \<not> between 241 241 c \<and>
     \<not> not_slug_input c \<and> \<not> is_space c"
  by (auto simp: slug_char_def between_def not_slug_input_def is_space_def is_hyphen_def)

lemma slugify_length: "length (slugify lc s) \<le> 60"
  by (simp add: slugify_def)

lemma slugify_alphabet: "list_all slug_char (slugify lc s)"
proof -
  define a where "a = replace_class (between 241 241) (str ''n'')
                 (replace_class (between 249 252) (str ''u'')
                   (replace_class (between 242 246) (str ''o'')
                     (replace_class (between 236 239) (str ''i'')
                       (replace_class (between 232 235) (str ''e'')
                         (replace_class (between 224 229) (str ''a'') (lc s))))))"
  define b where "b = trim (replace_class not_slug_input [] a)"
  define c where "c = replace_runs is_space [45] b"
  define d where "d = replace_runs is_hyphen [45] c"
  have sl: "slugify lc s = take 60 d"
    by (simp add: slugify_def a_def b_def c_def d_def str_simps)
  have b: "\<forall>x\<in>set b. \<not> not_slug_input x"
    using set_trim[of "replace_class not_slug_input [] a"]
    by (auto simp: b_def replace_class_set)
  have c: "\<forall>x\<in>set c. slug_char x"
    using replace_runs_set[of is_space "[45]" b] b
    by (auto simp: c_def slug_char_def not_slug_input_def is_hyphen_def)
  have d: "\<forall>x\<in>set d. slug_char x"
    using replace_runs_set[of is_hyphen "[45]" c] c
    by (auto simp: d_def slug_char_def is_hyphen_def)
  then have "\<forall>x\<in>set (take 60 d). slug_char x"
    by (meson in_set_takeD)
  then show ?thesis by (simp add: sl list_all_iff)
qed

lemma slugify_no_hyphen_pair: "no_hyphen_pair (slugify lc s)"
  by (simp add: slugify_def str_simps no_hyphen_pair_take replace_runs_no_hyphen_pair)

lemma slugify_fixed:
  assumes "list_all slug_char t" and "no_hyphen_pair t" and "length t \<le> 60" and "lc t = t"
  shows "slugify lc t = t"
proof -
  have n: "\<forall>c\<in>set t. \<not> between 224 229 c" "\<forall>c\<in>set t. \<not> between 232 235 c"
    "\<forall>c\<in>set t. \<not> between 236 239 c" "\<forall>c\<in>set t. \<not> between 242 246 c"
    "\<forall>c\<in>set t. \<not> between 249 252 c" "\<forall>c\<in>set t. \<not> between 241 241 c"
    "\<forall>c\<in>set t. \<not> not_slug_input c" "\<forall>c\<in>set t. \<not> is_space c"
    using assms(1) slug_char_not_class by (auto simp: list_all_iff)
  show ?thesis
    using assms(2,3,4) n
    by (simp add: slugify_def str_simps replace_class_id trim_id replace_runs_id
        replace_runs_hyphen_id)
qed

lemma latin1_toLowerCase_slug: "list_all slug_char t \<Longrightarrow> latin1_toLowerCase t = t"
  by (induction t) (auto simp: latin1_toLowerCase_def lower_unit_def slug_char_def between_def is_hyphen_def)

lemmas slugify_eval = str_simps slugify_def latin1_toLowerCase_def lower_unit_def between_def
  replace_class_def trim_def is_space_def is_hyphen_def not_slug_input_def

lemma replace_class_map: "replace_class p [r] s = map (\<lambda>c. if p c then r else c) s"
  by (induction s) (simp_all add: replace_class_def)

lemma replace_class_filter: "replace_class p [] s = filter (\<lambda>c. \<not> p c) s"
  by (induction s) (simp_all add: replace_class_def)

lemma replace_runs_squeeze: "replace_runs p [45] s = squeeze p s"
  by (induction p s rule: squeeze.induct) simp_all

lemma slugify_refines: "slugify lc s = slugify_spec lc s"
proof -
  have m: "replace_class (between 241 241) [110]
          (replace_class (between 249 252) [117]
            (replace_class (between 242 246) [111]
              (replace_class (between 236 239) [105]
                (replace_class (between 232 235) [101]
                  (replace_class (between 224 229) [97] x))))) = map unaccent x" for x
    by (simp add: replace_class_map o_def unaccent_def between_def cong: if_cong)
  show ?thesis
    by (simp add: slugify_def slugify_spec_def str_simps m replace_class_filter
        replace_runs_squeeze not_slug_input_def)
qed

section \<open>Properties of the store calls and of a run\<close>

lemmas io_defs = ret_def throw_def bnd_def try_catch_def console_log_def write_console_def fetch_call_def

lemma getBooksJson_run:
  "getBooksJson P cfg s = (x, s') \<Longrightarrow>
     \<exists>r. calls s' = calls s @ [(get_request cfg (str ''books.json''), r)] \<and>
         console s' = console s \<and>
         (\<forall>books sh. x = Inr (books, sh) \<longrightarrow>
            books = catalog_books r \<and> sh = catalog_token r \<and> catalog_read r) \<and>
         (\<forall>e. x = Inl e \<longrightarrow> \<not> catalog_read r)"
  by (auto simp: getBooksJson_def io_defs split: prod.splits fetch_result.splits if_splits sum.splits catalog_doc.splits)

lemma catalog_unparsable_not_read: "catalog_unparsable r \<Longrightarrow> \<not> catalog_read r"
  by (cases r) (auto split: sum.splits catalog_doc.splits)

lemma commit_run:
  "commitFileToGitHub P cfg fp c m sh s = (x, s') \<Longrightarrow>
     \<exists>r. calls s' = calls s @ [(put_request cfg fp \<lparr>message = m, content = c, branch = GITHUB_BRANCH cfg,
             sha = (if truthy sh then sh else None)\<rparr>, r)] \<and> console s' = console s \<and>
         (\<forall>j. x = Inr j \<longrightarrow> accepted r)"
  by (auto simp: commitFileToGitHub_def io_defs split: prod.splits fetch_result.splits if_splits sum.splits)

lemma getFileSHA_run:
  "getFileSHA P cfg fp s = (x, s') \<Longrightarrow>
     \<exists>r. calls s' = calls s @ [(get_request cfg fp, r)] \<and> console s' = console s"
  by (auto simp: getFileSHA_def io_defs split: prod.splits fetch_result.splits if_splits sum.splits)

lemma get_not_write [simp]: "\<not> catalog_write cfg (get_request cfg fp)"
  by (simp add: catalog_write_def get_request_def)

lemma blob_put_not_write [simp]: "\<not> catalog_write cfg (put_request cfg (str ''books/'' @ x) b)"
  by (simp add: catalog_write_def put_request_def contents_url_def str_simps)

lemma filePath_put_not_write [simp]:
  "\<not> catalog_write cfg (put_request cfg (filePath_of P f t a) b)"
  by (simp add: filePath_of_def)

lemma catalog_put_write [simp]: "catalog_write cfg (put_request cfg (str ''books.json'') b)"
  by (simp add: catalog_write_def put_request_def)

lemma sha_presented_put [simp]: "sha_presented (put_request cfg fp b) = sha b"
  by (simp add: sha_presented_def put_request_def)

lemma new_calls_same [simp]: "new_calls s s = []"
  by (simp add: new_calls_def)

lemma new_calls_console [simp]: "new_calls s (write_console l s') = new_calls s s'"
  "new_calls (write_console l s) s' = new_calls s s'"
  by (simp_all add: new_calls_def write_console_def)

lemma upload_steps_cycles:
  "upload_steps P cfg rq f t a g s = (x, s') \<Longrightarrow> cycles_ok cfg None (new_calls s s')"
  apply (simp add: upload_steps_def Let_def bnd_def console_log_def ret_def saveBooksJson_def
      split: prod.splits sum.splits)
  apply (auto dest!: getFileSHA_run commit_run getBooksJson_run simp: write_console_def new_calls_def)
  done

lemma upload_handler_cycles:
  "upload_handler P cfg rq s = (resp, s') \<Longrightarrow> cycles_ok cfg None (new_calls s s')"
  by (auto simp: upload_handler_def try_catch_def ret_def split: option.splits if_splits prod.splits sum.splits
      dest: upload_steps_cycles)

lemma errorHandler_calls [simp]: "new_calls s (snd (errorHandler e s)) = []"
  by (simp add: errorHandler_def)

lemma post_api_upload_cycles:
  "post_api_upload P cfg rq s = (resp, s') \<Longrightarrow> cycles_ok cfg None (new_calls s s')"
  by (auto simp: post_api_upload_def split: sum.splits dest: upload_handler_cycles)
     (metis cycles_ok.simps(1) errorHandler_calls snd_conv)

lemma delete_handler_cycles:
  "delete_handler P cfg rq s = (resp, s') \<Longrightarrow> cycles_ok cfg None (new_calls s s')"
  apply (simp add: delete_handler_def try_catch_def bnd_def ret_def Let_def saveBooksJson_def
      split: if_splits prod.splits sum.splits option.splits)
  apply (auto dest!: commit_run getBooksJson_run simp: write_console_def new_calls_def)
  done

lemma truthy_not_None: "truthy x \<Longrightarrow> x \<noteq> None"
  by (cases x) simp_all

lemma cycles_present_token:
  "cycles_ok cfg prev cs \<Longrightarrow> store_tokens cfg cs \<Longrightarrow>
     (case prev of None \<Rightarrow> True | Some p \<Rightarrow> fst p = get_request cfg (str ''books.json'') \<longrightarrow> token_given (snd p)) \<Longrightarrow>
     presents_fetched_token cfg prev cs"
proof (induction cs arbitrary: prev)
  case Nil
  then show ?case by simp
next
  case (Cons c cs)
  have here: "fst p = get_request cfg (str ''books.json'') \<and>
      sha_presented (fst c) = catalog_token (snd p) \<and>
      (if sha_presented (fst c) = None then catalog_absent (snd p) else True)"
    if w: "catalog_write cfg (fst c)" and p: "prev = Some p" for p
  proof -
    from Cons.prems(1) w p have g: "fst p = get_request cfg (str ''books.json'')"
      and r: "catalog_read (snd p)"
      and sh: "sha_presented (fst c) =
                 (if truthy (catalog_token (snd p)) then catalog_token (snd p) else None)"
      by simp_all
    from Cons.prems(3) p g have t: "token_given (snd p)" by simp
    from r t sh g show ?thesis
      by (cases "snd p")
        (auto split: if_splits sum.splits catalog_doc.splits dest: truthy_not_None)
  qed
  have none: "prev \<noteq> None" if "catalog_write cfg (fst c)"
    using Cons.prems(1) that by (auto split: option.splits)
  from Cons.prems have "presents_fetched_token cfg (Some c) cs"
    by (intro Cons.IH) simp_all
  with here none show ?case
    by (auto split: option.splits)
qed

lemma bnd_Inr:
  "bnd m k s = (Inr y, s') \<Longrightarrow> \<exists>x s1. m s = (Inr x, s1) \<and> k x s1 = (Inr y, s')"
  by (auto simp: bnd_def split: prod.splits sum.splits)

lemma upload_steps_success:
  fixes P :: "'w platform" and f t a
  defines "fp \<equiv> filePath_of P f t a"
  assumes run: "upload_steps P cfg rq f t a g s = (Inr resp, s')"
  shows "\<exists>r1 r2 r3 r4 sh2.
           new_calls s s' =
             [(get_request cfg fp, r1),
              (put_request cfg fp
                 \<lparr>message = str ''Add: '' @ t @ str '' by '' @ a, content = Blob (buffer f),
                  branch = GITHUB_BRANCH cfg, sha = sh2\<rparr>, r2),
              (get_request cfg (str ''books.json''), r3),
              (put_request cfg (str ''books.json'')
                 \<lparr>message = str ''Update catalog '' @ [8212] @ str '' '' @
                            digits (length (catalog_books r3) + 1) @ str '' books'',
                  content = Catalog (catalog_books r3 @
                     [newBook P rq t a g (nextId (catalog_books r3)) (fileSize_of f)
                        (format_of (file_ext P f)) fp]),
                  branch = GITHUB_BRANCH cfg,
                  sha = (if truthy (catalog_token r3) then catalog_token r3 else None)\<rparr>, r4)] \<and>
           accepted r2 \<and> catalog_read r3 \<and> accepted r4 \<and>
           resp = Response 200
             (Uploaded ([34] @ t @ [34] @ str '' has been added to the library!'')
                (newBook P rq t a g (nextId (catalog_books r3)) (fileSize_of f)
                   (format_of (file_ext P f)) fp)
                (length (catalog_books r3) + 1))"
proof -
  define s0 where "s0 = write_console
     (str ''Uploading: '' @ fp @ str '' ('' @ fileSize_of f @ str '')'') s"
  define fmt where "fmt = format_of (file_ext P f)"
  define fsz where "fsz = fileSize_of f"
  define k4 where "k4 = ((\<lambda>(books, booksSHA).
        bnd (saveBooksJson P cfg (books @ [newBook P rq t a g (nextId books) fsz fmt fp]) booksSHA)
          (\<lambda>saved.
        bnd (console_log ([34] @ t @ [34] @ str '' added. Total: '' @
               digits (length (books @ [newBook P rq t a g (nextId books) fsz fmt fp]))))
          (\<lambda>logged'.
        ret (Response 200
               (Uploaded ([34] @ t @ [34] @ str '' has been added to the library!'')
                  (newBook P rq t a g (nextId books) fsz fmt fp)
                  (length (books @ [newBook P rq t a g (nextId books) fsz fmt fp])))))))
             :: book list \<times> jsstring option \<Rightarrow> (http_response, 'w) io)"
  have c0: "calls s0 = calls s" by (simp add: s0_def write_console_def)
  from run have "bnd (getFileSHA P cfg fp) (\<lambda>existingSHA.
        bnd (commitFileToGitHub P cfg fp (Blob (buffer f))
               (str ''Add: '' @ t @ str '' by '' @ a) existingSHA) (\<lambda>committed.
        bnd (getBooksJson P cfg) k4)) s0 = (Inr resp, s')"
    by (simp add: upload_steps_def Let_def bnd_def console_log_def s0_def fmt_def fsz_def fp_def
        k4_def)
  then obtain sh1 s1 where 1: "getFileSHA P cfg fp s0 = (Inr sh1, s1)"
    and "bnd (commitFileToGitHub P cfg fp (Blob (buffer f))
               (str ''Add: '' @ t @ str '' by '' @ a) sh1) (\<lambda>committed.
        bnd (getBooksJson P cfg) k4) s1 = (Inr resp, s')"
    by (blast dest: bnd_Inr)
  then obtain j2 s2 where 2: "commitFileToGitHub P cfg fp (Blob (buffer f))
               (str ''Add: '' @ t @ str '' by '' @ a) sh1 s1 = (Inr j2, s2)"
    and "bnd (getBooksJson P cfg) k4 s2 = (Inr resp, s')"
    by (blast dest: bnd_Inr)
  then obtain bt s3 where 3: "getBooksJson P cfg s2 = (Inr bt, s3)"
    and k3: "k4 bt s3 = (Inr resp, s')"
    by (blast dest: bnd_Inr)
  obtain books sh where bt: "bt = (books, sh)" by (cases bt)
  define bk where "bk = newBook P rq t a g (nextId books) fsz fmt fp"
  from k3 obtain j4 s4 where 4: "saveBooksJson P cfg (books @ [bk]) sh s3 = (Inr j4, s4)"
    and k5: "bnd (console_log ([34] @ t @ [34] @ str '' added. Total: '' @ digits (length (books @ [bk]))))
          (\<lambda>logged'.
        ret (Response 200
               (Uploaded ([34] @ t @ [34] @ str '' has been added to the library!'') bk
                  (length (books @ [bk]))))) s4 = (Inr resp, s')"
    unfolding bt bk_def k4_def by (auto dest: bnd_Inr)
  from k5 have resp: "resp = Response 200
               (Uploaded ([34] @ t @ [34] @ str '' has been added to the library!'') bk
                  (length books + 1))"
    and s': "calls s' = calls s4"
    by (auto simp: bnd_def console_log_def ret_def write_console_def)
  from getFileSHA_run[OF 1] c0 obtain r1 where
    l1: "calls s1 = calls s @ [(get_request cfg fp, r1)]" by auto
  from commit_run[OF 2] obtain r2 where
    l2: "calls s2 = calls s1 @ [(put_request cfg fp
           \<lparr>message = str ''Add: '' @ t @ str '' by '' @ a, content = Blob (buffer f),
            branch = GITHUB_BRANCH cfg, sha = (if truthy sh1 then sh1 else None)\<rparr>, r2)]"
    and a2: "accepted r2"
    by auto
  from getBooksJson_run[OF 3] bt obtain r3 where
    l3: "calls s3 = calls s2 @ [(get_request cfg (str ''books.json''), r3)]"
    and b3: "books = catalog_books r3" "sh = catalog_token r3" "catalog_read r3"
    by auto
  from commit_run[OF 4[unfolded saveBooksJson_def]] obtain r4 where
    l4: "calls s4 = calls s3 @ [(put_request cfg (str ''books.json'')
           \<lparr>message = str ''Update catalog '' @ [8212] @ str '' '' @ digits (length (books @ [bk])) @
                      str '' books'',
            content = Catalog (books @ [bk]), branch = GITHUB_BRANCH cfg,
            sha = (if truthy sh then sh else None)\<rparr>, r4)]"
    and a4: "accepted r4"
    by auto
  have "new_calls s s' =
      [(get_request cfg fp, r1),
       (put_request cfg fp
          \<lparr>message = str ''Add: '' @ t @ str '' by '' @ a, content = Blob (buffer f),
           branch = GITHUB_BRANCH cfg, sha = (if truthy sh1 then sh1 else None)\<rparr>, r2),
       (get_request cfg (str ''books.json''), r3),
       (put_request cfg (str ''books.json'')
          \<lparr>message = str ''Update catalog '' @ [8212] @ str '' '' @ digits (length books + 1) @
                     str '' books'',
           content = Catalog (books @ [bk]), branch = GITHUB_BRANCH cfg,
           sha = (if truthy sh then sh else None)\<rparr>, r4)]"
    by (simp add: new_calls_def s' l1 l2 l3 l4)
  with resp b3 a2 a4 show ?thesis
    unfolding bk_def fmt_def fsz_def by blast
qed

lemma post_api_upload_success:
  assumes "post_api_upload P cfg rq s = (Response 200 (Uploaded msg bk tot), s')"
  shows "\<exists>f t a g r1 r2 r3 r4 sh2.
           req_file rq = Some f \<and> title rq = Some t \<and> t \<noteq> [] \<and> author rq = Some a \<and> a \<noteq> [] \<and>
           genre rq = Some g \<and> g \<noteq> [] \<and>
           (file_ext P f = str ''.pdf'' \<or> file_ext P f = str ''.epub'') \<and>
           new_calls s s' =
             [(get_request cfg (filePath_of P f t a), r1),
              (put_request cfg (filePath_of P f t a)
                 \<lparr>message = str ''Add: '' @ t @ str '' by '' @ a, content = Blob (buffer f),
                  branch = GITHUB_BRANCH cfg, sha = sh2\<rparr>, r2),
              (get_request cfg (str ''books.json''), r3),
              (put_request cfg (str ''books.json'')
                 \<lparr>message = str ''Update catalog '' @ [8212] @ str '' '' @
                            digits (length (catalog_books r3) + 1) @ str '' books'',
                  content = Catalog (catalog_books r3 @ [bk]),
                  branch = GITHUB_BRANCH cfg,
                  sha = (if truthy (catalog_token r3) then catalog_token r3 else None)\<rparr>, r4)] \<and>
           accepted r2 \<and> catalog_read r3 \<and> accepted r4 \<and>
           bk = newBook P rq t a g (nextId (catalog_books r3)) (fileSize_of f)
                   (format_of (file_ext P f)) (filePath_of P f t a) \<and>
           tot = length (catalog_books r3) + 1"
proof -
  from assms have ok: "upload_single P rq = Inr rq"
    and h: "upload_handler P cfg rq s = (Response 200 (Uploaded msg bk tot), s')"
    by (auto simp: post_api_upload_def errorHandler_def upload_single_def
        split: sum.splits if_splits option.splits)
  from h obtain f t a g where v: "req_file rq = Some f" "title rq = Some t" "t \<noteq> []"
    "author rq = Some a" "a \<noteq> []" "genre rq = Some g" "g \<noteq> []"
    and st: "upload_steps P cfg rq f t a g s = (Inr (Response 200 (Uploaded msg bk tot)), s')"
    by (auto simp: upload_handler_def try_catch_def ret_def
        split: option.splits if_splits prod.splits sum.splits)
  from ok v(1) have e: "file_ext P f = str ''.pdf'' \<or> file_ext P f = str ''.epub''"
    by (auto simp: upload_single_def fileFilter_def Let_def split: if_splits sum.splits)
  from upload_steps_success[OF st] v e show ?thesis
    by (elim exE conjE) (simp, blast)
qed

lemma fold_max_Max: "fold max xs (x::int) = Max (insert x (set xs))"
  using Max.set_eq_fold[of x xs] by simp

lemma plus_1_safe: "- 9007199254740992 < m \<Longrightarrow> m < 9007199254740992 \<Longrightarrow> plus_1 m = m + 1"
  by (simp add: plus_1_def)

lemma Max_ids_safe:
  assumes "list_all safe_id books" and "books \<noteq> []"
  shows "- 9007199254740992 < Max (set (map (\<lambda>b. or0 (b_id b)) books))"
    and "Max (set (map (\<lambda>b. or0 (b_id b)) books)) < 9007199254740992"
proof -
  let ?ids = "set (map (\<lambda>b. or0 (b_id b)) books)"
  from assms(2) have ne: "?ids \<noteq> {}" and fin: "finite ?ids" by simp_all
  from Max_in[OF fin ne] obtain b where b: "b \<in> set books" "or0 (b_id b) = Max ?ids"
    by auto
  from assms(1) b(1) obtain n where "b_id b = Some n" "- 9007199254740992 < n" "n < 9007199254740992"
    by (auto simp: list_all_iff safe_id_def split: option.splits)
  with b(2) show "- 9007199254740992 < Max ?ids" and "Max ?ids < 9007199254740992"
    by simp_all
qed

lemma nextId_positive:
  assumes "list_all safe_id books"
  shows "nextId books =
           Some (if books = [] then 1 else Max (set (map (\<lambda>b. or0 (b_id b)) books)) + 1)"
proof (cases books)
  case Nil
  then show ?thesis by (simp add: nextId_def)
next
  case (Cons b bs)
  then have ne: "books \<noteq> []" by simp
  have "math_max (map (\<lambda>b. or0 (b_id b)) books) =
      Some (Max (set (map (\<lambda>b. or0 (b_id b)) books)))"
    unfolding Cons by (simp add: fold_max_Max)
  with ne plus_1_safe[OF Max_ids_safe[OF assms ne]] show ?thesis
    by (simp add: nextId_def)
qed

lemma nextId_above:
  assumes "list_all positive_id books" and "list_all safe_id books" and "b_id bk = nextId books"
  shows "list_all (\<lambda>b. id_below b bk) books"
proof -
  have "id_below b bk" if b: "b \<in> set books" for b
  proof -
    from b have ne: "books \<noteq> []" by auto
    from assms(1) b obtain n where n: "b_id b = Some n" "0 < n"
      by (auto simp: list_all_iff positive_id_def split: option.splits)
    have "or0 (b_id b) \<le> Max (set (map (\<lambda>b. or0 (b_id b)) books))"
      using b by (intro Max_ge) auto
    with n assms(3) nextId_positive[OF assms(2)] ne show ?thesis
      by (simp add: id_below_def)
  qed
  then show ?thesis by (simp add: list_all_iff)
qed

section \<open>Runs on the scripted host\<close>

lemma ext_moby: "posix_extname (str ''Moby-Dick.PDF'') = str ''.PDF''"
  by code_simp

lemma lower_ext: "latin1_toLowerCase (str ''.PDF'') = str ''.pdf''"
  by (simp add: latin1_toLowerCase_def lower_unit_def between_def str_simps)

lemma slug_moby: "slugify latin1_toLowerCase (str ''Moby Dick'') = str ''moby-dick''"
  by (simp add: slugify_eval)

lemma slug_melville: "slugify latin1_toLowerCase (str ''Herman Melville'') = str ''herman-melville''"
  by (simp add: slugify_eval)

lemma fetch_call_scripted:
  "fetch_call scripted rq \<lparr>world = r # rs, calls = cs, console = co\<rparr> =
     (case r of Rejected m \<Rightarrow> Inl (Error m) | Resolved res \<Rightarrow> Inr res,
      \<lparr>world = rs, calls = cs @ [(rq, r)], console = co\<rparr>)"
  by (simp add: fetch_call_def scripted_def)

lemma getFileSHA_scripted_absent:
  "getFileSHA scripted cfg fp \<lparr>world = not_found # rs, calls = cs, console = co\<rparr> =
     (Inr None, \<lparr>world = rs, calls = cs @ [(get_request cfg fp, not_found)], console = co\<rparr>)"
  by (simp add: getFileSHA_def bnd_def fetch_call_scripted ret_def not_found_def)

lemma commit_scripted_ok:
  "commitFileToGitHub scripted cfg fp c m sh
     \<lparr>world = ok_response t d # rs, calls = cs, console = co\<rparr> =
     (Inr \<lparr>data_content = d, data_sha = t\<rparr>,
      \<lparr>world = rs,
       calls = cs @ [(put_request cfg fp
                       \<lparr>message = m, content = c, branch = GITHUB_BRANCH cfg,
                        sha = (if truthy sh then sh else None)\<rparr>, ok_response t d)],
       console = co\<rparr>)"
  by (simp add: commitFileToGitHub_def bnd_def fetch_call_scripted ret_def ok_response_def ok_def)

lemma getBooksJson_scripted_ok:
  "getBooksJson scripted cfg \<lparr>world = ok_response t d # rs, calls = cs, console = co\<rparr> =
     (case d of Unparsable m \<Rightarrow> Inl (Error m) | NotArray \<Rightarrow> Inr ([], t) | Books bs \<Rightarrow> Inr (bs, t),
      \<lparr>world = rs, calls = cs @ [(get_request cfg (str ''books.json''), ok_response t d)],
       console = co\<rparr>)"
  by (simp add: getBooksJson_def bnd_def fetch_call_scripted ret_def throw_def ok_response_def
      ok_def split: catalog_doc.splits)

lemma getBooksJson_scripted_absent:
  "getBooksJson scripted cfg \<lparr>world = not_found # rs, calls = cs, console = co\<rparr> =
     (Inr ([], None),
      \<lparr>world = rs, calls = cs @ [(get_request cfg (str ''books.json''), not_found)],
       console = co\<rparr>)"
  by (simp add: getBooksJson_def bnd_def fetch_call_scripted ret_def not_found_def)


lemma file_ext_moby: "file_ext scripted moby_file = str ''.pdf''"
  by (simp add: file_ext_def scripted_def moby_file_def ext_moby lower_ext)

lemma fileFilter_moby: "fileFilter scripted moby_file = Inr ()"
  by (simp add: fileFilter_def file_ext_moby)

lemma scripted_sel:
  "toLowerCase scripted = latin1_toLowerCase" "extname scripted = posix_extname"
  "parseInt scripted = js_parseInt" "isoNow scripted = str ''2024-05-01T12:00:00.000Z''"
  by (simp_all add: scripted_def)

lemma upload_scripted_run:
  fixes rq f t a g cfg t2 d2 t3 bs t4 d4
  defines "fp \<equiv> filePath_of scripted f t a"
  defines "bk \<equiv> newBook scripted rq t a g (nextId bs) (fileSize_of f)
                   (format_of (file_ext scripted f)) fp"
  assumes "req_file rq = Some f" "title rq = Some t" "t \<noteq> []" "author rq = Some a" "a \<noteq> []"
    "genre rq = Some g" "g \<noteq> []" "upload_single scripted rq = Inr rq"
  shows "post_api_upload scripted cfg rq
           (start [not_found, ok_response t2 d2, ok_response t3 (Books bs), ok_response t4 d4]) =
         (Response 200
            (Uploaded ([34] @ t @ [34] @ str '' has been added to the library!'') bk
               (length bs + 1)),
          \<lparr>world = [],
           calls =
             [(get_request cfg fp, not_found),
              (put_request cfg fp
                 \<lparr>message = str ''Add: '' @ t @ str '' by '' @ a, content = Blob (buffer f),
                  branch = GITHUB_BRANCH cfg, sha = None\<rparr>, ok_response t2 d2),
              (get_request cfg (str ''books.json''), ok_response t3 (Books bs)),
              (put_request cfg (str ''books.json'')
                 \<lparr>message = str ''Update catalog '' @ [8212] @ str '' '' @ digits (length bs + 1) @
                            str '' books'',
                  content = Catalog (bs @ [bk]), branch = GITHUB_BRANCH cfg,
                  sha = (if truthy t3 then t3 else None)\<rparr>, ok_response t4 d4)],
           console =
             [str ''Uploading: '' @ fp @ str '' ('' @ fileSize_of f @ str '')'',
              [34] @ t @ [34] @ str '' added. Total: '' @ digits (length bs + 1)]\<rparr>)"
  using assms(3-)
  by (simp add: post_api_upload_def upload_handler_def upload_steps_def try_catch_def bnd_def
      ret_def console_log_def write_console_def start_def Let_def saveBooksJson_def
      getFileSHA_scripted_absent commit_scripted_ok getBooksJson_scripted_ok
      fp_def bk_def)

lemma upload_single_moby: "upload_single scripted moby = Inr moby"
  by (simp add: upload_single_def moby_def fileFilter_moby) (simp add: moby_file_def)

lemma moby_run:
  "post_api_upload scripted demo_config moby
     (start [not_found, ok_response t2 d2, ok_response t3 (Books bs), ok_response t4 d4]) =
   (Response 200
      (Uploaded ([34] @ str ''Moby Dick'' @ [34] @ str '' has been added to the library!'')
         (newBook scripted moby (str ''Moby Dick'') (str ''Herman Melville'') (str ''Fiction'')
            (nextId bs) (fileSize_of moby_file) (str ''PDF'')
            (str ''books/moby-dick-herman-melville.pdf''))
         (length bs + 1)),
    \<lparr>world = [],
     calls =
       [(get_request demo_config (str ''books/moby-dick-herman-melville.pdf''), not_found),
        (put_request demo_config (str ''books/moby-dick-herman-melville.pdf'')
           \<lparr>message = str ''Add: Moby Dick by Herman Melville'', content = Blob (buffer moby_file),
            branch = str ''main'', sha = None\<rparr>, ok_response t2 d2),
        (get_request demo_config (str ''books.json''), ok_response t3 (Books bs)),
        (put_request demo_config (str ''books.json'')
           \<lparr>message = str ''Update catalog '' @ [8212] @ str '' '' @ digits (length bs + 1) @
                      str '' books'',
            content = Catalog (bs @
              [newBook scripted moby (str ''Moby Dick'') (str ''Herman Melville'') (str ''Fiction'')
                 (nextId bs) (fileSize_of moby_file) (str ''PDF'')
                 (str ''books/moby-dick-herman-melville.pdf'')]),
            branch = str ''main'',
            sha = (if truthy t3 then t3 else None)\<rparr>, ok_response t4 d4)],
     console =
       [str ''Uploading: books/moby-dick-herman-melville.pdf ('' @ fileSize_of moby_file @ str '')'',
        [34] @ str ''Moby Dick'' @ [34] @ str '' added. Total: '' @ digits (length bs + 1)]\<rparr>)"
proof -
  have fp: "filePath_of scripted moby_file (str ''Moby Dick'') (str ''Herman Melville'') =
      str ''books/moby-dick-herman-melville.pdf''"
    by (simp add: filePath_of_def scripted_sel slug_moby slug_melville file_ext_moby)
       (simp add: str_simps)
  have fmt: "format_of (file_ext scripted moby_file) = str ''PDF''"
    by (simp add: format_of_def file_ext_moby) (simp add: str_simps)
  have cfg: "GITHUB_BRANCH demo_config = str ''main''" by (simp add: demo_config_def)
  show ?thesis
    using upload_scripted_run[of moby moby_file "str ''Moby Dick''" "str ''Herman Melville''"
        "str ''Fiction''" demo_config t2 d2 t3 bs t4 d4]
    by (simp add: upload_single_moby fp fmt cfg) (simp add: moby_def str_simps)
qed

lemmas parseInt_eval = js_parseInt_def Let_def is_space_def digit_value_def is_digit_of_def
  between_def str_simps

lemma parseInt_7: "js_parseInt (str ''7'') = Some 7"
  by (simp add: parseInt_eval)


lemma admin_authorized:
  "authorization (admin_delete i) = Some (str ''Bearer '' @ ADMIN_SECRET demo_config)"
  by (simp add: admin_delete_def demo_config_def str_simps)

lemma admin_id_param: "id_param (admin_delete i) = i"
  by (simp add: admin_delete_def)

lemma delete_scripted_run:
  assumes "findIndex (same_id (js_parseInt i)) bs = Some idx"
  shows "delete_handler scripted demo_config (admin_delete i)
           (start [ok_response t1 (Books bs), ok_response t2 d2]) =
         (Response 200 (Removed ([34] @ b_title (bs ! idx) @ [34] @ str '' removed.'') (bs ! idx)),
          \<lparr>world = [],
           calls =
             [(get_request demo_config (str ''books.json''), ok_response t1 (Books bs)),
              (put_request demo_config (str ''books.json'')
                 \<lparr>message = str ''Update catalog '' @ [8212] @ str '' '' @
                            digits (length (take idx bs @ drop (Suc idx) bs)) @ str '' books'',
                  content = Catalog (take idx bs @ drop (Suc idx) bs),
                  branch = GITHUB_BRANCH demo_config,
                  sha = (if truthy t1 then t1 else None)\<rparr>, ok_response t2 d2)],
           console = []\<rparr>)"
  using assms
  by (simp add: delete_handler_def admin_authorized admin_id_param try_catch_def bnd_def ret_def
      start_def getBooksJson_scripted_ok commit_scripted_ok saveBooksJson_def scripted_sel Let_def)

lemma request_simps [simp]:
  "verb (get_request cfg fp) = GET" "verb (put_request cfg fp b) = PUT"
  "sha_presented (get_request cfg fp) = None"
  by (simp_all add: get_request_def put_request_def sha_presented_def)

lemma slugify_lower: "slugify lc s = slugify (\<lambda>x. x) (lc s)"
  by (simp add: slugify_def)

lemma slug_moby_lower: "slugify (\<lambda>x. x) (str ''moby dick'') = str ''moby-dick''"
  by (simp add: slugify_eval)

lemma slug_melville_lower: "slugify (\<lambda>x. x) (str ''herman melville'') = str ''herman-melville''"
  by (simp add: slugify_eval)

lemma moby_genre_run:
  assumes "g \<noteq> []"
  shows "fst (post_api_upload scripted cfg (moby\<lparr>genre := Some g\<rparr>)
                (start [not_found, ok_response t2 d2, ok_response t3 (Books bs), ok_response t4 d4])) =
         Response 200
           (Uploaded ([34] @ str ''Moby Dick'' @ [34] @ str '' has been added to the library!'')
              (newBook scripted (moby\<lparr>genre := Some g\<rparr>) (str ''Moby Dick'')
                 (str ''Herman Melville'') g (nextId bs) (fileSize_of moby_file)
                 (format_of (file_ext scripted moby_file))
                 (filePath_of scripted moby_file (str ''Moby Dick'') (str ''Herman Melville'')))
              (length bs + 1))"
proof -
  have "upload_single scripted (moby\<lparr>genre := Some g\<rparr>) = Inr (moby\<lparr>genre := Some g\<rparr>)"
    by (simp add: upload_single_def moby_def fileFilter_moby) (simp add: moby_file_def)
  then show ?thesis
    using assms
      upload_scripted_run[of "moby\<lparr>genre := Some g\<rparr>" moby_file "str ''Moby Dick''"
        "str ''Herman Melville''" g cfg t2 d2 t3 bs t4 d4]
    by (simp add: moby_def str_simps)
qed

lemma trim_fiction: "trim (str ''Fiction'') = str ''Fiction''"
  by (simp add: trim_def is_space_def str_simps)

lemma includes_only_pdf:
  "includes_str (str ''Only PDF and EPUB files are accepted.'') (str ''Only PDF'')"
  by (simp add: str_simps)

lemma upload_single_error:
  "upload_single P rq = Inl e \<Longrightarrow>
     e = Error (str ''Only PDF and EPUB files are accepted.'') \<or>
     e = CodedError (str ''LIMIT_FILE_SIZE'') (str ''File too large'')"
  by (auto simp: upload_single_def fileFilter_def Let_def split: option.splits if_splits sum.splits)

lemma upload_single_same: "upload_single P rq = Inr rq' \<Longrightarrow> rq' = rq"
  by (auto simp: upload_single_def split: option.splits if_splits sum.splits)

lemma errorHandler_multer:
  "errorHandler (Error (str ''Only PDF and EPUB files are accepted.'')) s =
     (Response 400 (Failure (str ''Only PDF and EPUB files are accepted.'')), s)"
  "errorHandler (CodedError (str ''LIMIT_FILE_SIZE'') (str ''File too large'')) s =
     (Response 400 (Failure (str ''File too large. Max 50 MB.'')), s)"
  by (simp_all add: errorHandler_def includes_only_pdf)

lemma upload_handler_invalid:
  assumes "req_file rq = None \<or> \<not> truthy (title rq) \<or> \<not> truthy (author rq) \<or> \<not> truthy (genre rq)"
  shows "upload_handler P cfg rq s =
           (Response 400
              (Failure (if req_file rq = None then str ''No file uploaded.''
                        else if \<not> truthy (title rq) then str ''Title is required.''
                        else if \<not> truthy (author rq) then str ''Author is required.''
                        else str ''Genre is required.'')), s)"
  using assms
  by (cases "req_file rq"; cases "title rq"; cases "author rq"; cases "genre rq")
     (auto simp: upload_handler_def try_catch_def ret_def)

lemma findIndex_None: "findIndex p xs = None \<longleftrightarrow> \<not> list_ex p xs"
  by (induction xs) auto

lemma delete_handler_run:
  assumes auth: "authorization rq = Some (str ''Bearer '' @ ADMIN_SECRET cfg)"
  shows "\<exists>c cs. new_calls s (snd (delete_handler P cfg rq s)) = c # cs \<and>
           fst c = get_request cfg (str ''books.json'') \<and>
           (catalog_read (snd c) \<and>
            \<not> list_ex (same_id (parseInt P (id_param rq))) (catalog_books (snd c)) \<longrightarrow>
              fst (delete_handler P cfg rq s) = Response 404 (Failure (str ''Book not found.'')) \<and>
              cs = []) \<and>
           (\<not> catalog_read (snd c) \<longrightarrow>
              status_code (fst (delete_handler P cfg rq s)) = 500 \<and> cs = [])"
proof -
  obtain x s1 where g: "getBooksJson P cfg s = (x, s1)"
    by (cases "getBooksJson P cfg s")
  from getBooksJson_run[OF g] obtain r where
    l: "calls s1 = calls s @ [(get_request cfg (str ''books.json''), r)]"
    and inr: "\<And>books sh. x = Inr (books, sh) \<Longrightarrow>
          books = catalog_books r \<and> sh = catalog_token r \<and> catalog_read r"
    and inl: "\<And>e. x = Inl e \<Longrightarrow> \<not> catalog_read r"
    by blast
  show ?thesis
  proof (cases x)
    case (Inl e)
    then have "delete_handler P cfg rq s =
        (Response 500 (Failure (err_message e)),
         write_console (str ''DELETE /api/books: '' @ err_message e) s1)"
      using auth g by (simp add: delete_handler_def try_catch_def bnd_def)
    with l inl[OF Inl] show ?thesis
      by (intro exI[of _ "(get_request cfg (str ''books.json''), r)"] exI[of _ "[]"])
         (simp add: new_calls_def write_console_def)
  next
    case (Inr bt)
    obtain books sh where bt: "bt = (books, sh)" by (cases bt)
    from inr[of books sh] Inr bt have b: "books = catalog_books r" "catalog_read r" by auto
    show ?thesis
    proof (cases "findIndex (same_id (parseInt P (id_param rq))) books")
      case None
      then have "delete_handler P cfg rq s = (Response 404 (Failure (str ''Book not found.'')), s1)"
        using auth g Inr bt by (simp add: delete_handler_def try_catch_def bnd_def ret_def)
      with l b show ?thesis
        by (intro exI[of _ "(get_request cfg (str ''books.json''), r)"] exI[of _ "[]"])
           (simp add: new_calls_def)
    next
      case (Some idx)
      obtain y s2 where sv: "saveBooksJson P cfg (take idx books @ drop (Suc idx) books) sh s1 = (y, s2)"
        by (cases "saveBooksJson P cfg (take idx books @ drop (Suc idx) books) sh s1")
      from commit_run[OF sv[unfolded saveBooksJson_def]] obtain r' b' where
        l2: "calls s2 = calls s1 @ [(put_request cfg (str ''books.json'') b', r')]"
        by blast
      have "\<exists>resp s3. delete_handler P cfg rq s = (resp, s3) \<and> calls s3 = calls s2"
        using auth g Inr bt Some sv
        by (cases y)
           (simp_all add: delete_handler_def try_catch_def bnd_def ret_def Let_def write_console_def)
      then obtain resp s3 where d: "delete_handler P cfg rq s = (resp, s3)" "calls s3 = calls s2"
        by blast
      from Some have "list_ex (same_id (parseInt P (id_param rq))) books"
        using findIndex_None[of "same_id (parseInt P (id_param rq))" books] by simp
      with d l l2 b show ?thesis
        by (intro exI[of _ "(get_request cfg (str ''books.json''), r)"]
            exI[of _ "[(put_request cfg (str ''books.json'') b', r')]"])
           (simp add: new_calls_def)
    qed
  qed
qed

lemma get_api_books_run:
  "\<exists>c. new_calls s (snd (get_api_books P cfg s)) = [c] \<and>
       fst c = get_request cfg (str ''books.json'') \<and>
       (\<not> catalog_read (snd c) \<longrightarrow>
          fst (get_api_books P cfg s) =
            Response 500 (Failure (str ''Failed to fetch books catalog.'')))"
proof -
  obtain x s1 where g: "getBooksJson P cfg s = (x, s1)"
    by (cases "getBooksJson P cfg s")
  from getBooksJson_run[OF g] obtain r where
    l: "calls s1 = calls s @ [(get_request cfg (str ''books.json''), r)]"
    and inr: "\<And>books sh. x = Inr (books, sh) \<Longrightarrow> catalog_read r"
    by blast
  show ?thesis
  proof (cases x)
    case (Inl e)
    with g l show ?thesis
      by (intro exI[of _ "(get_request cfg (str ''books.json''), r)"])
         (simp add: get_api_books_def try_catch_def bnd_def new_calls_def write_console_def)
  next
    case (Inr bt)
    with inr[of "fst bt" "snd bt"] g l show ?thesis
      by (intro exI[of _ "(get_request cfg (str ''books.json''), r)"])
         (simp add: get_api_books_def try_catch_def bnd_def ret_def new_calls_def
            split: prod.splits)
  qed
qed

lemma upload_steps_third:
  "upload_steps P cfg rq f t a g s = (x, s') \<Longrightarrow> new_calls s s' = c1 # c2 # c3 # cs \<Longrightarrow>
     fst c3 = get_request cfg (str ''books.json'') \<and>
     (\<not> catalog_read (snd c3) \<longrightarrow> cs = [] \<and> (\<exists>e. x = Inl e))"
  apply (simp add: upload_steps_def Let_def bnd_def console_log_def ret_def saveBooksJson_def
      split: prod.splits sum.splits)
  apply (auto dest!: getFileSHA_run commit_run getBooksJson_run simp: write_console_def new_calls_def)
  done

lemma upload_handler_third:
  assumes "new_calls s (snd (upload_handler P cfg rq s)) = c1 # c2 # c3 # cs"
  shows "fst c3 = get_request cfg (str ''books.json'') \<and>
     (\<not> catalog_read (snd c3) \<longrightarrow>
        status_code (fst (upload_handler P cfg rq s)) = 500 \<and> cs = [])"
proof (cases "req_file rq = None \<or> \<not> truthy (title rq) \<or> \<not> truthy (author rq) \<or> \<not> truthy (genre rq)")
  case True
  from upload_handler_invalid[OF True, of P cfg s] assms show ?thesis by simp
next
  case False
  then obtain f t a g where v: "req_file rq = Some f" "title rq = Some t" "t \<noteq> []"
    "author rq = Some a" "a \<noteq> []" "genre rq = Some g" "g \<noteq> []"
    by (cases "req_file rq"; cases "title rq"; cases "author rq"; cases "genre rq") auto
  obtain x s1 where st: "upload_steps P cfg rq f t a g s = (x, s1)"
    by (cases "upload_steps P cfg rq f t a g s")
  show ?thesis
  proof (cases x)
    case (Inl e)
    with v st have h: "upload_handler P cfg rq s =
        (Response 500 (Failure (if err_message e \<noteq> [] then err_message e
                                else str ''Upload failed. Please try again.'')),
         write_console (str ''POST /api/upload: '' @ err_message e) s1)"
      by (simp add: upload_handler_def try_catch_def)
    with assms have "new_calls s s1 = c1 # c2 # c3 # cs" by simp
    from upload_steps_third[OF st this] h show ?thesis by simp
  next
    case (Inr resp)
    with v st have h: "upload_handler P cfg rq s = (resp, s1)"
      by (simp add: upload_handler_def try_catch_def)
    with assms have "new_calls s s1 = c1 # c2 # c3 # cs" by simp
    from upload_steps_third[OF st this] Inr show ?thesis by auto
  qed
qed

lemma post_api_upload_third:
  assumes "new_calls s (snd (post_api_upload P cfg rq s)) = c1 # c2 # c3 # cs"
  shows "fst c3 = get_request cfg (str ''books.json'') \<and>
     (\<not> catalog_read (snd c3) \<longrightarrow>
        status_code (fst (post_api_upload P cfg rq s)) = 500 \<and> cs = [])"
proof (cases "upload_single P rq")
  case (Inl e)
  with assms show ?thesis by (simp add: post_api_upload_def)
next
  case (Inr rq')
  with upload_single_same[OF Inr] assms upload_handler_third[of s P cfg rq c1 c2 c3 cs]
  show ?thesis by (simp add: post_api_upload_def)
qed


lemma commit_scripted_conflict:
  "commitFileToGitHub scripted cfg fp c m sh \<lparr>world = conflict # rs, calls = cs, console = co\<rparr> =
     (Inl (Error (str ''GitHub commit failed (409): books.json does not match 5f2a'')),
      \<lparr>world = rs,
       calls = cs @ [(put_request cfg fp
                       \<lparr>message = m, content = c, branch = GITHUB_BRANCH cfg,
                        sha = (if truthy sh then sh else None)\<rparr>, conflict)],
       console = co\<rparr>)"
  by (simp add: commitFileToGitHub_def bnd_def fetch_call_scripted throw_def conflict_def ok_def
      digits.simps str_simps)

lemma getBooksJson_scripted_unparsable:
  "catalog_unparsable (ok_response t (Unparsable m))"
  by (simp add: ok_response_def ok_def)

text \<open>
  Two more runs on the color of an upload, outside what the amended claim on colors speaks of: a genre with
  white space around it is stored trimmed, with the default color, since the table is looked up
  with the untrimmed field; and the genre \<^verbatim>\<open>constructor\<close> finds the member that the table
  inherits, which is not a color.
\<close>

lemma color_looked_up_with_untrimmed_genre:
  "map_option (\<lambda>b. (b_genre b, b_color b))
     (uploaded_book
        (fst (post_api_upload scripted demo_config (moby\<lparr>genre := Some (str '' Fiction '')\<rparr>)
                (start [not_found, ok_response (Some (str ''b10b'')) NotArray,
                        ok_response (Some (str ''5f2a'')) (Books [old_book]),
                        ok_response (Some (str ''77aa'')) NotArray])))) =
     Some (str ''Fiction'', Color (str ''#4a4a4a''))"
proof -
  have ne: "str '' Fiction '' \<noteq> []" by (simp add: str_simps)
  have m: "map_of genreColors (str '' Fiction '') = None"
    by (simp add: genreColors_def str_simps)
  have n: "str '' Fiction '' \<notin> set object_prototype_names"
    by (simp add: object_prototype_names_def str_simps)
  have t: "trim (str '' Fiction '') = str ''Fiction''"
    by (simp add: trim_def is_space_def str_simps)
  show ?thesis
    by (simp add: moby_genre_run[OF ne] newBook_def color_of_def genreColors_get_def m n t)
qed

lemma color_of_inherited_member:
  "map_option (\<lambda>b. (b_genre b, b_color b))
     (uploaded_book
        (fst (post_api_upload scripted demo_config (moby\<lparr>genre := Some (str ''constructor'')\<rparr>)
                (start [not_found, ok_response (Some (str ''b10b'')) NotArray,
                        ok_response (Some (str ''5f2a'')) (Books [old_book]),
                        ok_response (Some (str ''77aa'')) NotArray])))) =
     Some (str ''constructor'', Inherited (str ''constructor''))"
proof -
  have ne: "str ''constructor'' \<noteq> []" by (simp add: str_simps)
  have m: "map_of genreColors (str ''constructor'') = None"
    by (simp add: genreColors_def str_simps)
  have n: "str ''constructor'' \<in> set object_prototype_names"
    by (simp add: object_prototype_names_def)
  have t: "trim (str ''constructor'') = str ''constructor''"
    by (simp add: trim_def is_space_def str_simps)
  show ?thesis
    by (simp add: moby_genre_run[OF ne] newBook_def color_of_def genreColors_get_def m n t)
qed

text \<open>Runs in which the catalog document cannot be parsed.\<close>

lemma moby_unparsable_run:
  "post_api_upload scripted demo_config moby
     (start [not_found, ok_response t2 d2, ok_response t3 (Unparsable m)]) =
   (Response 500 (Failure (if m \<noteq> [] then m else str ''Upload failed. Please try again.'')),
    \<lparr>world = [],
     calls =
       [(get_request demo_config (str ''books/moby-dick-herman-melville.pdf''), not_found),
        (put_request demo_config (str ''books/moby-dick-herman-melville.pdf'')
           \<lparr>message = str ''Add: '' @ str ''Moby Dick'' @ str '' by '' @ str ''Herman Melville'',
            content = Blob (buffer moby_file),
            branch = GITHUB_BRANCH demo_config, sha = None\<rparr>, ok_response t2 d2),
        (get_request demo_config (str ''books.json''), ok_response t3 (Unparsable m))],
     console =
       [str ''Uploading: '' @ str ''books/moby-dick-herman-melville.pdf'' @ str '' ('' @
          fileSize_of moby_file @ str '')'',
        str ''POST /api/upload: '' @ m]\<rparr>)"
proof -
  have fp: "filePath_of scripted moby_file (str ''Moby Dick'') (str ''Herman Melville'') =
      str ''books/moby-dick-herman-melville.pdf''"
    by (simp add: filePath_of_def scripted_sel slug_moby slug_melville file_ext_moby)
       (simp add: str_simps)
  have st: "upload_steps scripted demo_config moby moby_file (str ''Moby Dick'')
      (str ''Herman Melville'') (str ''Fiction'')
      (start [not_found, ok_response t2 d2, ok_response t3 (Unparsable m)]) =
    (Inl (Error m),
     \<lparr>world = [],
      calls =
       [(get_request demo_config (str ''books/moby-dick-herman-melville.pdf''), not_found),
        (put_request demo_config (str ''books/moby-dick-herman-melville.pdf'')
           \<lparr>message = str ''Add: '' @ str ''Moby Dick'' @ str '' by '' @ str ''Herman Melville'',
            content = Blob (buffer moby_file),
            branch = GITHUB_BRANCH demo_config, sha = None\<rparr>, ok_response t2 d2),
        (get_request demo_config (str ''books.json''), ok_response t3 (Unparsable m))],
      console = [str ''Uploading: '' @ str ''books/moby-dick-herman-melville.pdf'' @ str '' ('' @
                 fileSize_of moby_file @ str '')'']\<rparr>)"
    by (simp add: upload_steps_def Let_def bnd_def console_log_def write_console_def start_def
        fp getFileSHA_scripted_absent commit_scripted_ok getBooksJson_scripted_ok)
  have h: "upload_handler scripted demo_config moby
      (start [not_found, ok_response t2 d2, ok_response t3 (Unparsable m)]) =
    (Response 500 (Failure (if m \<noteq> [] then m else str ''Upload failed. Please try again.'')),
     write_console (str ''POST /api/upload: '' @ m)
     \<lparr>world = [],
      calls =
       [(get_request demo_config (str ''books/moby-dick-herman-melville.pdf''), not_found),
        (put_request demo_config (str ''books/moby-dick-herman-melville.pdf'')
           \<lparr>message = str ''Add: '' @ str ''Moby Dick'' @ str '' by '' @ str ''Herman Melville'',
            content = Blob (buffer moby_file),
            branch = GITHUB_BRANCH demo_config, sha = None\<rparr>, ok_response t2 d2),
        (get_request demo_config (str ''books.json''), ok_response t3 (Unparsable m))],
      console = [str ''Uploading: '' @ str ''books/moby-dick-herman-melville.pdf'' @ str '' ('' @
                 fileSize_of moby_file @ str '')'']\<rparr>)"
    unfolding upload_handler_def try_catch_def
    by (simp add: moby_def st[unfolded moby_def]) (simp add: str_simps)
  show ?thesis
    unfolding post_api_upload_def upload_single_moby
    by (simp add: h) (simp add: write_console_def)
qed

lemma delete_unparsable_run:
  "delete_handler scripted demo_config (admin_delete i)
     (start [ok_response t (Unparsable m)]) =
   (Response 500 (Failure m),
    \<lparr>world = [],
     calls = [(get_request demo_config (str ''books.json''), ok_response t (Unparsable m))],
     console = [str ''DELETE /api/books: '' @ m]\<rparr>)"
  by (simp add: delete_handler_def admin_authorized try_catch_def bnd_def start_def
      getBooksJson_scripted_ok write_console_def)

text \<open>
  Why the property of revision tokens is stated against a store that always gives a token:
  were a fetch of the catalog answered with an empty token, the write after it would present
  none, although the catalog is there.
\<close>

lemma empty_token_is_not_presented:
  "new_calls (start [ok_response (Some []) (Books [old_book]),
                     ok_response (Some (str ''9c1d'')) NotArray])
     (snd (delete_handler scripted demo_config (admin_delete (str ''7''))
             (start [ok_response (Some []) (Books [old_book]),
                     ok_response (Some (str ''9c1d'')) NotArray]))) =
   [(get_request demo_config (str ''books.json''), ok_response (Some []) (Books [old_book])),
    (put_request demo_config (str ''books.json'')
       \<lparr>message = str ''Update catalog '' @ [8212] @ str '' 0 books'', content = Catalog [],
        branch = str ''main'', sha = None\<rparr>,
     ok_response (Some (str ''9c1d'')) NotArray)]"
proof -
  have "findIndex (same_id (js_parseInt (str ''7''))) [old_book] = Some 0"
    by (simp add: parseInt_7 old_book_def)
  from delete_scripted_run[OF this] show ?thesis
    by (simp add: new_calls_def start_def digits.simps demo_config_def str_simps)
qed

section \<open>The claims\<close>

text \<open>
  C1. Against a store that answers every successful fetch of the catalog document with the
  revision token of the document, a non-empty string, in every run of the upload route and of
  the delete handler: every write of the catalog document comes right after the fetch of the
  catalog document that began the cycle and presents exactly the token that fetch returned,
  and a write that presents no token is issued only when that fetch reported the catalog
  absent.
\<close>

theorem catalog_write_presents_fetched_token:
  "(store_tokens cfg (new_calls s (snd (post_api_upload P cfg urq s))) \<longrightarrow>
      presents_fetched_token cfg None (new_calls s (snd (post_api_upload P cfg urq s)))) \<and>
   (store_tokens cfg (new_calls s (snd (delete_handler P cfg drq s))) \<longrightarrow>
      presents_fetched_token cfg None (new_calls s (snd (delete_handler P cfg drq s))))"
proof -
  have u: "cycles_ok cfg None (new_calls s (snd (post_api_upload P cfg urq s)))"
    by (metis post_api_upload_cycles prod.collapse)
  have d: "cycles_ok cfg None (new_calls s (snd (delete_handler P cfg drq s)))"
    by (metis delete_handler_cycles prod.collapse)
  from cycles_present_token[OF u] cycles_present_token[OF d] show ?thesis
    by simp
qed

theorem catalog_write_presents_fetched_token_witness:
  "map (\<lambda>c. (verb (fst c), sha_presented (fst c)))
     (new_calls (start [not_found, ok_response (Some (str ''b10b'')) NotArray,
                         ok_response (Some (str ''5f2a'')) (Books [old_book]),
                         ok_response (Some (str ''77aa'')) NotArray])
        (snd (post_api_upload scripted demo_config moby
                (start [not_found, ok_response (Some (str ''b10b'')) NotArray,
                        ok_response (Some (str ''5f2a'')) (Books [old_book]),
                        ok_response (Some (str ''77aa'')) NotArray])))) =
     [(GET, None), (PUT, None), (GET, None), (PUT, Some (str ''5f2a''))] \<and>
   presents_fetched_token demo_config None
     (new_calls (start [not_found, ok_response (Some (str ''b10b'')) NotArray,
                         ok_response (Some (str ''5f2a'')) (Books [old_book]),
                         ok_response (Some (str ''77aa'')) NotArray])
        (snd (post_api_upload scripted demo_config moby
                (start [not_found, ok_response (Some (str ''b10b'')) NotArray,
                        ok_response (Some (str ''5f2a'')) (Books [old_book]),
                        ok_response (Some (str ''77aa'')) NotArray])))) \<and>
   map (\<lambda>c. (verb (fst c), sha_presented (fst c)))
     (new_calls (start [ok_response (Some (str ''5f2a'')) (Books [old_book]),
                         ok_response (Some (str ''9c1d'')) NotArray])
        (snd (delete_handler scripted demo_config (admin_delete (str ''7''))
                (start [ok_response (Some (str ''5f2a'')) (Books [old_book]),
                        ok_response (Some (str ''9c1d'')) NotArray])))) =
     [(GET, None), (PUT, Some (str ''5f2a''))] \<and>
   presents_fetched_token demo_config None
     (new_calls (start [ok_response (Some (str ''5f2a'')) (Books [old_book]),
                         ok_response (Some (str ''9c1d'')) NotArray])
        (snd (delete_handler scripted demo_config (admin_delete (str ''7''))
                (start [ok_response (Some (str ''5f2a'')) (Books [old_book]),
                        ok_response (Some (str ''9c1d'')) NotArray]))))"
proof -
  let ?S = "start [not_found, ok_response (Some (str ''b10b'')) NotArray,
                   ok_response (Some (str ''5f2a'')) (Books [old_book]),
                   ok_response (Some (str ''77aa'')) NotArray]"
  let ?D = "start [ok_response (Some (str ''5f2a'')) (Books [old_book]),
                   ok_response (Some (str ''9c1d'')) NotArray]"
  have tk: "token_given (ok_response (Some (str ''5f2a'')) (Books [old_book]))"
    by (simp add: ok_response_def ok_def str_simps)
  have fi: "findIndex (same_id (js_parseInt (str ''7''))) [old_book] = Some 0"
    by (simp add: parseInt_7 old_book_def)
  have su: "store_tokens demo_config
      (new_calls ?S (snd (post_api_upload scripted demo_config moby ?S)))"
    using tk
    by (simp add: moby_run)
       (simp add: new_calls_def start_def get_request_def put_request_def contents_url_def
          not_found_def str_simps)
  have sd: "store_tokens demo_config
      (new_calls ?D (snd (delete_handler scripted demo_config (admin_delete (str ''7'')) ?D)))"
    using tk
    by (simp add: delete_scripted_run[OF fi])
       (simp add: new_calls_def start_def get_request_def put_request_def contents_url_def
          str_simps)
  have mu: "map (\<lambda>c. (verb (fst c), sha_presented (fst c)))
      (new_calls ?S (snd (post_api_upload scripted demo_config moby ?S))) =
      [(GET, None), (PUT, None), (GET, None), (PUT, Some (str ''5f2a''))]"
    by (simp add: moby_run) (simp add: new_calls_def start_def str_simps)
  have md: "map (\<lambda>c. (verb (fst c), sha_presented (fst c)))
      (new_calls ?D (snd (delete_handler scripted demo_config (admin_delete (str ''7'')) ?D))) =
      [(GET, None), (PUT, Some (str ''5f2a''))]"
    by (simp add: delete_scripted_run[OF fi]) (simp add: new_calls_def start_def str_simps)
  from catalog_write_presents_fetched_token [of demo_config ?S scripted moby
      "admin_delete (str ''7'')"] su
  have pu: "presents_fetched_token demo_config None
      (new_calls ?S (snd (post_api_upload scripted demo_config moby ?S)))"
    by blast
  from catalog_write_presents_fetched_token [of demo_config ?D scripted moby
      "admin_delete (str ''7'')"] sd
  have pd: "presents_fetched_token demo_config None
      (new_calls ?D (snd (delete_handler scripted demo_config (admin_delete (str ''7'')) ?D)))"
    by blast
  from mu pu md pd show ?thesis by blast
qed

text \<open>
  C2, as amended. For every successful upload, the id of the new book is the next id of the
  catalog that the third call of the run, the fetch of the catalog document, reported, and the
  fourth call writes that catalog with the new book at its end. If every book of that catalog
  carries a positive integer id below \<open>2^53\<close>, the new id is 1 for the empty catalog and the
  largest existing id plus 1 otherwise, and every existing id is below it.
\<close>

theorem upload_allocates_next_id:
  assumes "post_api_upload P cfg rq s = (Response 200 (Uploaded msg bk tot), s')"
  shows "\<exists>c1 c2 c3 c4.
           new_calls s s' = [c1, c2, c3, c4] \<and>
           fst c3 = get_request cfg (str ''books.json'') \<and>
           catalog_write cfg (fst c4) \<and>
           catalog_written (fst c4) = Some (catalog_books (snd c3) @ [bk]) \<and>
           b_id bk = nextId (catalog_books (snd c3)) \<and>
           (list_all positive_id (catalog_books (snd c3)) \<and>
            list_all safe_id (catalog_books (snd c3)) \<longrightarrow>
              b_id bk =
                Some (if catalog_books (snd c3) = [] then 1
                      else Max (set (map (\<lambda>b. or0 (b_id b)) (catalog_books (snd c3)))) + 1) \<and>
              list_all (\<lambda>b. id_below b bk) (catalog_books (snd c3)))"
proof -
  from post_api_upload_success[OF assms] obtain f t a g r1 r2 r3 r4 sh2 where
    calls: "new_calls s s' =
             [(get_request cfg (filePath_of P f t a), r1),
              (put_request cfg (filePath_of P f t a)
                 \<lparr>message = str ''Add: '' @ t @ str '' by '' @ a, content = Blob (buffer f),
                  branch = GITHUB_BRANCH cfg, sha = sh2\<rparr>, r2),
              (get_request cfg (str ''books.json''), r3),
              (put_request cfg (str ''books.json'')
                 \<lparr>message = str ''Update catalog '' @ [8212] @ str '' '' @
                            digits (length (catalog_books r3) + 1) @ str '' books'',
                  content = Catalog (catalog_books r3 @ [bk]),
                  branch = GITHUB_BRANCH cfg,
                  sha = (if truthy (catalog_token r3) then catalog_token r3 else None)\<rparr>, r4)]"
    and bk: "bk = newBook P rq t a g (nextId (catalog_books r3)) (fileSize_of f)
                   (format_of (file_ext P f)) (filePath_of P f t a)"
    by blast
  define c4 where "c4 = (put_request cfg (str ''books.json'')
                 \<lparr>message = str ''Update catalog '' @ [8212] @ str '' '' @
                            digits (length (catalog_books r3) + 1) @ str '' books'',
                  content = Catalog (catalog_books r3 @ [bk]),
                  branch = GITHUB_BRANCH cfg,
                  sha = (if truthy (catalog_token r3) then catalog_token r3 else None)\<rparr>, r4)"
  have w: "catalog_write cfg (fst c4)"
    by (simp add: c4_def)
  have cw: "catalog_written (fst c4) = Some (catalog_books r3 @ [bk])"
    by (simp add: c4_def catalog_written_def put_request_def)
  from bk have id: "b_id bk = nextId (catalog_books r3)"
    by (simp add: newBook_def)
  have calls': "new_calls s s' =
      [(get_request cfg (filePath_of P f t a), r1),
       (put_request cfg (filePath_of P f t a)
          \<lparr>message = str ''Add: '' @ t @ str '' by '' @ a, content = Blob (buffer f),
           branch = GITHUB_BRANCH cfg, sha = sh2\<rparr>, r2),
       (get_request cfg (str ''books.json''), r3), c4]"
    unfolding calls c4_def ..
  have safe: "b_id bk =
        Some (if catalog_books r3 = [] then 1
              else Max (set (map (\<lambda>b. or0 (b_id b)) (catalog_books r3))) + 1) \<and>
      list_all (\<lambda>b. id_below b bk) (catalog_books r3)"
    if "list_all positive_id (catalog_books r3)" "list_all safe_id (catalog_books r3)"
    using that id nextId_positive[of "catalog_books r3"] nextId_above[of "catalog_books r3" bk]
    by simp
  show ?thesis
    using calls' id w cw safe
    by (intro exI[of _ "(get_request cfg (filePath_of P f t a), r1)"]
          exI[of _ "(put_request cfg (filePath_of P f t a)
             \<lparr>message = str ''Add: '' @ t @ str '' by '' @ a, content = Blob (buffer f),
              branch = GITHUB_BRANCH cfg, sha = sh2\<rparr>, r2)"]
          exI[of _ "(get_request cfg (str ''books.json''), r3)"] exI[of _ c4]) simp
qed

theorem upload_allocates_next_id_witness:
  "map_option b_id
     (uploaded_book
        (fst (post_api_upload scripted demo_config moby
                (start [not_found, ok_response (Some (str ''b10b'')) NotArray,
                        ok_response (Some (str ''5f2a'')) (Books [old_book]),
                        ok_response (Some (str ''77aa'')) NotArray])))) = Some (Some 8) \<and>
   list_all positive_id [old_book] \<and> list_all safe_id [old_book]"
  using upload_allocates_next_id[of scripted demo_config moby
      "start [not_found, ok_response (Some (str ''b10b'')) NotArray,
              ok_response (Some (str ''5f2a'')) (Books [old_book]),
              ok_response (Some (str ''77aa'')) NotArray]",
      OF moby_run]
  by (simp add: moby_run newBook_def nextId_def plus_1_def old_book_def positive_id_def
      safe_id_def)

text \<open>
  The claim as stated fails for a catalog whose largest id is \<open>2^53\<close>, a positive integer: the
  sum with 1 is rounded back to \<open>2^53\<close>, and the new book gets the id of an existing one.
\<close>

theorem upload_repeats_id_counterexample:
  "list_all positive_id [old_book\<lparr>b_id := Some 9007199254740992\<rparr>] \<and>
   map_option b_id
     (uploaded_book
        (fst (post_api_upload scripted demo_config moby
                (start [not_found, ok_response (Some (str ''b10b'')) NotArray,
                        ok_response (Some (str ''5f2a''))
                          (Books [old_book\<lparr>b_id := Some 9007199254740992\<rparr>]),
                        ok_response (Some (str ''77aa'')) NotArray])))) =
     Some (Some 9007199254740992)"
  by (simp add: moby_run newBook_def nextId_def plus_1_def old_book_def positive_id_def)

text \<open>
  C3, as amended. For every upload request in which the file is absent, or the title, the
  author or the genre is absent or empty, the handler answers 400 with the message of the
  first missing field, and the route answers 400 with that message or with a message of the
  file filter; the state is left as it was: no call to the remote store is made, and the world
  outside is unchanged. A file that is present and empty is not a missing file.
\<close>

theorem upload_rejects_missing_field:
  assumes "req_file rq = None \<or> \<not> truthy (title rq) \<or> \<not> truthy (author rq) \<or> \<not> truthy (genre rq)"
  shows "upload_handler P cfg rq s =
           (Response 400
              (Failure (if req_file rq = None then str ''No file uploaded.''
                        else if \<not> truthy (title rq) then str ''Title is required.''
                        else if \<not> truthy (author rq) then str ''Author is required.''
                        else str ''Genre is required.'')), s) \<and>
         (\<exists>m. post_api_upload P cfg rq s = (Response 400 (Failure m), s) \<and>
              m \<in> set [str ''No file uploaded.'', str ''Title is required.'',
                        str ''Author is required.'', str ''Genre is required.'',
                        str ''Only PDF and EPUB files are accepted.'',
                        str ''File too large. Max 50 MB.''])"
proof -
  note h = upload_handler_invalid[OF assms, of P cfg s]
  have "\<exists>m. post_api_upload P cfg rq s = (Response 400 (Failure m), s) \<and>
              m \<in> set [str ''No file uploaded.'', str ''Title is required.'',
                        str ''Author is required.'', str ''Genre is required.'',
                        str ''Only PDF and EPUB files are accepted.'',
                        str ''File too large. Max 50 MB.'']"
  proof (cases "upload_single P rq")
    case (Inl e)
    with upload_single_error[OF Inl] show ?thesis
      by (auto simp: post_api_upload_def errorHandler_multer)
  next
    case (Inr rq')
    with upload_single_same[OF Inr] h show ?thesis
      by (simp add: post_api_upload_def)
  qed
  with h show ?thesis by blast
qed

theorem upload_rejects_missing_field_witness:
  "post_api_upload scripted demo_config (moby\<lparr>title := Some []\<rparr>)
     (start [not_found, ok_response (Some (str ''b10b'')) NotArray]) =
   (Response 400 (Failure (str ''Title is required.'')),
    start [not_found, ok_response (Some (str ''b10b'')) NotArray])"
proof -
  have u: "upload_single scripted (moby\<lparr>title := Some []\<rparr>) = Inr (moby\<lparr>title := Some []\<rparr>)"
    by (simp add: upload_single_def moby_def fileFilter_moby) (simp add: moby_file_def)
  have "req_file (moby\<lparr>title := Some []\<rparr>) = None \<or> \<not> truthy (title (moby\<lparr>title := Some []\<rparr>)) \<or>
      \<not> truthy (author (moby\<lparr>title := Some []\<rparr>)) \<or> \<not> truthy (genre (moby\<lparr>title := Some []\<rparr>))"
    by simp
  from upload_rejects_missing_field [OF this, of scripted demo_config
      "start [not_found, ok_response (Some (str ''b10b'')) NotArray]"]
  have "upload_handler scripted demo_config (moby\<lparr>title := Some []\<rparr>)
      (start [not_found, ok_response (Some (str ''b10b'')) NotArray]) =
    (Response 400 (Failure (str ''Title is required.'')),
     start [not_found, ok_response (Some (str ''b10b'')) NotArray])"
    by (simp add: moby_def)
  then show ?thesis
    by (simp add: post_api_upload_def u)
qed

text \<open>
  The claim as stated fails for a file that is present and empty: with the three fields given,
  a file of zero bytes is uploaded like any other, with four calls to the remote store.
\<close>

theorem upload_accepts_empty_file_counterexample:
  "file_size empty_file = 0 \<and> buffer empty_file = [] \<and>
   status_code
     (fst (post_api_upload scripted demo_config (moby\<lparr>req_file := Some empty_file\<rparr>)
             (start [not_found, ok_response (Some (str ''b10b'')) NotArray,
                     ok_response (Some (str ''5f2a'')) (Books [old_book]),
                     ok_response (Some (str ''77aa'')) NotArray]))) = 200 \<and>
   map (\<lambda>c. (verb (fst c), map_option content (body (fst c))))
     (new_calls (start [not_found, ok_response (Some (str ''b10b'')) NotArray,
                        ok_response (Some (str ''5f2a'')) (Books [old_book]),
                        ok_response (Some (str ''77aa'')) NotArray])
        (snd (post_api_upload scripted demo_config (moby\<lparr>req_file := Some empty_file\<rparr>)
                (start [not_found, ok_response (Some (str ''b10b'')) NotArray,
                        ok_response (Some (str ''5f2a'')) (Books [old_book]),
                        ok_response (Some (str ''77aa'')) NotArray])))) =
     [(GET, None), (PUT, Some (Blob [])), (GET, None),
      (PUT, Some (Catalog
         [old_book,
          \<lparr>b_id = Some 8, b_title = str ''Moby Dick'', b_author = str ''Herman Melville'',
           b_genre = str ''Fiction'', b_year = Some 1851, b_language = str ''English'',
           b_size = str ''0.0 MB'', b_format = str ''PDF'', b_description = str '''',
           b_file = str ''books/moby-dick-herman-melville.pdf'',
           b_color = Color (str ''#9c3d2e''),
           b_uploadedAt = str ''2024-05-01T12:00:00.000Z''\<rparr>]))]"
proof -
  let ?rq = "moby\<lparr>req_file := Some empty_file\<rparr>"
  let ?S = "start [not_found, ok_response (Some (str ''b10b'')) NotArray,
                   ok_response (Some (str ''5f2a'')) (Books [old_book]),
                   ok_response (Some (str ''77aa'')) NotArray]"
  have ext: "file_ext scripted empty_file = str ''.pdf''"
    by (simp add: file_ext_def scripted_def empty_file_def ext_moby lower_ext)
  have ff: "fileFilter scripted empty_file = Inr ()"
    by (simp add: fileFilter_def ext)
  have e: "file_size empty_file = 0 \<and> buffer empty_file = []"
    by (simp add: empty_file_def)
  have us: "upload_single scripted ?rq = Inr ?rq"
    by (simp add: upload_single_def moby_def ff e)
  have fp: "filePath_of scripted empty_file (str ''Moby Dick'') (str ''Herman Melville'') =
      str ''books/moby-dick-herman-melville.pdf''"
    by (simp add: filePath_of_def scripted_sel slug_moby slug_melville ext)
       (simp add: str_simps)
  have fmt: "format_of (file_ext scripted empty_file) = str ''PDF''"
    by (simp add: format_of_def ext) (simp add: str_simps)
  have sz: "fileSize_of empty_file = str ''0.0 MB''"
    by (simp add: fileSize_of_def toFixed1_MB_def empty_file_def digits.simps str_simps)
  have yr: "js_parseInt (str ''1851'') = Some 1851"
    by (simp add: parseInt_eval)
  have bk: "newBook scripted ?rq (str ''Moby Dick'') (str ''Herman Melville'') (str ''Fiction'')
      (nextId [old_book]) (str ''0.0 MB'') (str ''PDF'') (str ''books/moby-dick-herman-melville.pdf'') =
    \<lparr>b_id = Some 8, b_title = str ''Moby Dick'', b_author = str ''Herman Melville'',
     b_genre = str ''Fiction'', b_year = Some 1851, b_language = str ''English'',
     b_size = str ''0.0 MB'', b_format = str ''PDF'', b_description = str '''',
     b_file = str ''books/moby-dick-herman-melville.pdf'',
     b_color = Color (str ''#9c3d2e''),
     b_uploadedAt = str ''2024-05-01T12:00:00.000Z''\<rparr>"
    by (simp add: newBook_def moby_def scripted_sel yr nextId_def plus_1_def old_book_def
        trim_fiction color_of_def genreColors_get_def)
       (simp add: genreColors_def trim_def is_space_def str_simps)
  have run: "post_api_upload scripted demo_config ?rq ?S =
    (Response 200
       (Uploaded ([34] @ str ''Moby Dick'' @ [34] @ str '' has been added to the library!'')
          (newBook scripted ?rq (str ''Moby Dick'') (str ''Herman Melville'') (str ''Fiction'')
             (nextId [old_book]) (str ''0.0 MB'') (str ''PDF'')
             (str ''books/moby-dick-herman-melville.pdf''))
          (length [old_book] + 1)),
     \<lparr>world = [],
      calls =
        [(get_request demo_config (str ''books/moby-dick-herman-melville.pdf''), not_found),
         (put_request demo_config (str ''books/moby-dick-herman-melville.pdf'')
            \<lparr>message = str ''Add: '' @ str ''Moby Dick'' @ str '' by '' @ str ''Herman Melville'',
             content = Blob (buffer empty_file),
             branch = GITHUB_BRANCH demo_config, sha = None\<rparr>,
          ok_response (Some (str ''b10b'')) NotArray),
         (get_request demo_config (str ''books.json''),
          ok_response (Some (str ''5f2a'')) (Books [old_book])),
         (put_request demo_config (str ''books.json'')
            \<lparr>message = str ''Update catalog '' @ [8212] @ str '' '' @
                       digits (length [old_book] + 1) @ str '' books'',
             content = Catalog ([old_book] @
               [newBook scripted ?rq (str ''Moby Dick'') (str ''Herman Melville'')
                  (str ''Fiction'') (nextId [old_book]) (str ''0.0 MB'') (str ''PDF'')
                  (str ''books/moby-dick-herman-melville.pdf'')]),
             branch = GITHUB_BRANCH demo_config,
             sha = (if truthy (Some (str ''5f2a'')) then Some (str ''5f2a'') else None)\<rparr>,
          ok_response (Some (str ''77aa'')) NotArray)],
      console =
        [str ''Uploading: '' @ str ''books/moby-dick-herman-melville.pdf'' @ str '' ('' @
           str ''0.0 MB'' @ str '')'',
         [34] @ str ''Moby Dick'' @ [34] @ str '' added. Total: '' @
           digits (length [old_book] + 1)]\<rparr>)"
    using upload_scripted_run[of ?rq empty_file "str ''Moby Dick''" "str ''Herman Melville''"
        "str ''Fiction''" demo_config "Some (str ''b10b'')" NotArray "Some (str ''5f2a'')"
        "[old_book]" "Some (str ''77aa'')" NotArray]
    by (simp add: us fp fmt sz) (simp add: moby_def str_simps)
  show ?thesis
    unfolding run bk
    by (simp add: e) (simp add: new_calls_def start_def get_request_def put_request_def)
qed



text \<open>
  C5. \<^verbatim>\<open>slugify\<close> is idempotent: for every input string \<open>s\<close>, applying it twice gives the
  same result as applying it once. This holds with every \<^verbatim>\<open>toLowerCase\<close> that leaves a
  string over \<^verbatim>\<open>[a-z0-9-]\<close> as it is, as the one of JavaScript does.
\<close>

theorem slugify_idempotent:
  assumes "\<And>t. list_all slug_char t \<Longrightarrow> lc t = t"
  shows "slugify lc (slugify lc s) = slugify lc s"
  by (intro slugify_fixed slugify_alphabet slugify_no_hyphen_pair slugify_length assms)

theorem slugify_idempotent_witness:
  "slugify latin1_toLowerCase (slugify latin1_toLowerCase (str ''  The  CAF'' @ [201] @ str '' -- Book! '')) =
     str ''the-cafe-book''"
  using slugify_idempotent [of latin1_toLowerCase "str ''  The  CAF'' @ [201] @ str '' -- Book! ''", OF latin1_toLowerCase_slug]
  by (simp add: slugify_eval)

text \<open>
  C6, as amended. For every input string, \<^verbatim>\<open>slugify\<close> lowercases, maps the accented Latin
  letters of its six classes to unaccented ASCII, strips the characters outside
  \<^verbatim>\<open>[a-z0-9\s-]\<close>, trims leading and trailing white space (not hyphens), turns white space
  runs into single hyphens, collapses repeated hyphens and truncates to 60 code units, in this
  order: it is the function \<open>slugify_spec\<close>. Its output has length at most 60, consists of
  characters of \<^verbatim>\<open>[a-z0-9-]\<close> only and has no two hyphens in a row; it may begin or end with
  a hyphen.
\<close>

theorem slugify_output:
  "slugify lc s = slugify_spec lc s \<and>
   length (slugify lc s) \<le> 60 \<and> list_all slug_char (slugify lc s) \<and>
   no_hyphen_pair (slugify lc s)"
  by (intro conjI slugify_refines slugify_length slugify_alphabet slugify_no_hyphen_pair)

theorem slugify_output_witness:
  "slugify_spec latin1_toLowerCase (str ''  The  CAF'' @ [201] @ str '' -- Book! '') =
     str ''the-cafe-book'' \<and>
   length (str ''the-cafe-book'') \<le> 60 \<and> list_all slug_char (str ''the-cafe-book'') \<and>
   no_hyphen_pair (str ''the-cafe-book'')"
proof -
  have e: "slugify latin1_toLowerCase (str ''  The  CAF'' @ [201] @ str '' -- Book! '') =
      str ''the-cafe-book''"
    by (simp add: slugify_eval)
  note t = slugify_output [of latin1_toLowerCase "str ''  The  CAF'' @ [201] @ str '' -- Book! ''"]
  from t [unfolded e] show ?thesis by metis
qed

text \<open>
  The claim as stated fails: hyphens at the ends of the input stay, joined by the hyphens that
  the inner white space becomes.
\<close>

theorem slugify_hyphen_ends_counterexample:
  "slugify latin1_toLowerCase (str ''- Dune -'') = str ''-dune-''"
  by (simp add: slugify_eval)

text \<open>
  C7. For every successful upload, the blob is fetched and written at the path \<^verbatim>\<open>books/\<close> +
  \<^verbatim>\<open>slugify(title)\<close> + \<^verbatim>\<open>-\<close> + \<^verbatim>\<open>slugify(author)\<close> + the lowercased extension of the
  original file name, and the store accepts that write; the catalog is then fetched and
  written with the new entry at its end, and the store accepts that write too; the path is the
  \<^verbatim>\<open>file\<close> of that stored entry, and its format is PDF for \<^verbatim>\<open>.pdf\<close> and EPUB for \<^verbatim>\<open>.epub\<close>.
  For the title Moby Dick, the author Herman Melville and a \<^verbatim>\<open>.pdf\<close> file, with a
  \<^verbatim>\<open>toLowerCase\<close> that lowercases these two strings, the file is
  \<^verbatim>\<open>books/moby-dick-herman-melville.pdf\<close> and the format PDF.
\<close>

theorem upload_blob_path:
  assumes "post_api_upload P cfg rq s = (Response 200 (Uploaded msg bk tot), s')"
  shows "\<exists>f t a c1 c2 c3 c4 b.
           req_file rq = Some f \<and> title rq = Some t \<and> author rq = Some a \<and>
           b_file bk =
             str ''books/'' @ slugify (toLowerCase P) t @ str ''-'' @ slugify (toLowerCase P) a @
             toLowerCase P (extname P (originalname f)) \<and>
           new_calls s s' = [c1, c2, c3, c4] \<and>
           fst c1 = get_request cfg (b_file bk) \<and>
           fst c2 = put_request cfg (b_file bk) b \<and> content b = Blob (buffer f) \<and>
           accepted (snd c2) \<and>
           fst c3 = get_request cfg (str ''books.json'') \<and>
           catalog_write cfg (fst c4) \<and>
           catalog_written (fst c4) = Some (catalog_books (snd c3) @ [bk]) \<and>
           accepted (snd c4) \<and>
           (toLowerCase P (extname P (originalname f)) = str ''.pdf'' \<and> b_format bk = str ''PDF'' \<or>
            toLowerCase P (extname P (originalname f)) = str ''.epub'' \<and>
            b_format bk = str ''EPUB'') \<and>
           (toLowerCase P t = str ''moby dick'' \<and> toLowerCase P a = str ''herman melville'' \<and>
            toLowerCase P (extname P (originalname f)) = str ''.pdf'' \<longrightarrow>
              b_file bk = str ''books/moby-dick-herman-melville.pdf'' \<and> b_format bk = str ''PDF'')"
proof -
  from post_api_upload_success[OF assms] obtain f t a g r1 r2 r3 r4 sh2 where
    v: "req_file rq = Some f" "title rq = Some t" "author rq = Some a"
    and e: "file_ext P f = str ''.pdf'' \<or> file_ext P f = str ''.epub''"
    and calls: "new_calls s s' =
             [(get_request cfg (filePath_of P f t a), r1),
              (put_request cfg (filePath_of P f t a)
                 \<lparr>message = str ''Add: '' @ t @ str '' by '' @ a, content = Blob (buffer f),
                  branch = GITHUB_BRANCH cfg, sha = sh2\<rparr>, r2),
              (get_request cfg (str ''books.json''), r3),
              (put_request cfg (str ''books.json'')
                 \<lparr>message = str ''Update catalog '' @ [8212] @ str '' '' @
                            digits (length (catalog_books r3) + 1) @ str '' books'',
                  content = Catalog (catalog_books r3 @ [bk]),
                  branch = GITHUB_BRANCH cfg,
                  sha = (if truthy (catalog_token r3) then catalog_token r3 else None)\<rparr>, r4)]"
    and acc: "accepted r2" "accepted r4"
    and bk: "bk = newBook P rq t a g (nextId (catalog_books r3)) (fileSize_of f)
                   (format_of (file_ext P f)) (filePath_of P f t a)"
    by blast
  have ext: "file_ext P f = toLowerCase P (extname P (originalname f))"
    by (simp add: file_ext_def)
  have bfile: "b_file bk = str ''books/'' @ slugify (toLowerCase P) t @ str ''-'' @
      slugify (toLowerCase P) a @ toLowerCase P (extname P (originalname f))"
    by (simp add: bk newBook_def filePath_of_def ext)
  have path: "filePath_of P f t a = b_file bk"
    by (simp add: bk newBook_def)
  have fmt: "b_format bk = format_of (toLowerCase P (extname P (originalname f)))"
    by (simp add: bk newBook_def ext)
  have fmts: "toLowerCase P (extname P (originalname f)) = str ''.pdf'' \<and> b_format bk = str ''PDF'' \<or>
      toLowerCase P (extname P (originalname f)) = str ''.epub'' \<and> b_format bk = str ''EPUB''"
    using e unfolding ext fmt by (auto simp: format_of_def str_simps)
  have example: "b_file bk = str ''books/moby-dick-herman-melville.pdf'' \<and> b_format bk = str ''PDF''"
    if "toLowerCase P t = str ''moby dick''" "toLowerCase P a = str ''herman melville''"
      "toLowerCase P (extname P (originalname f)) = str ''.pdf''"
  proof -
    have "slugify (toLowerCase P) t = str ''moby-dick''"
      "slugify (toLowerCase P) a = str ''herman-melville''"
      using that slugify_lower[of "toLowerCase P"] slug_moby_lower slug_melville_lower by simp_all
    with that show ?thesis
      unfolding bfile fmt by (simp add: format_of_def str_simps)
  qed
  define B where "B = \<lparr>message = str ''Add: '' @ t @ str '' by '' @ a, content = Blob (buffer f),
                  branch = GITHUB_BRANCH cfg, sha = sh2\<rparr>"
  define c2 where "c2 = (put_request cfg (b_file bk) B, r2)"
  define c3 where "c3 = (get_request cfg (str ''books.json''), r3)"
  define c4 where "c4 = (put_request cfg (str ''books.json'')
                 \<lparr>message = str ''Update catalog '' @ [8212] @ str '' '' @
                            digits (length (catalog_books r3) + 1) @ str '' books'',
                  content = Catalog (catalog_books r3 @ [bk]),
                  branch = GITHUB_BRANCH cfg,
                  sha = (if truthy (catalog_token r3) then catalog_token r3 else None)\<rparr>, r4)"
  have calls': "new_calls s s' = [(get_request cfg (b_file bk), r1), c2, c3, c4]"
    unfolding calls path[symmetric] B_def c2_def c3_def c4_def ..
  have c1: "fst (get_request cfg (b_file bk), r1) = get_request cfg (b_file bk)"
    and c2: "fst c2 = put_request cfg (b_file bk) B" "accepted (snd c2)"
    and cB: "content B = Blob (buffer f)"
    and c3: "fst c3 = get_request cfg (str ''books.json'')"
    and c4: "catalog_write cfg (fst c4)" "accepted (snd c4)"
    using acc by (simp_all add: B_def c2_def c3_def c4_def)
  have cw: "catalog_written (fst c4) = Some (catalog_books (snd c3) @ [bk])"
    by (simp add: c3_def c4_def catalog_written_def put_request_def)
  from example have ex: "toLowerCase P t = str ''moby dick'' \<and>
      toLowerCase P a = str ''herman melville'' \<and>
      toLowerCase P (extname P (originalname f)) = str ''.pdf'' \<longrightarrow>
        b_file bk = str ''books/moby-dick-herman-melville.pdf'' \<and> b_format bk = str ''PDF''"
    by blast
  show ?thesis
    using v(1) v(2) v(3) bfile calls' c1 c2 cB c3 c4 cw fmts ex by blast
qed

theorem upload_blob_path_witness:
  "map_option (\<lambda>b. (b_file b, b_format b))
     (uploaded_book
        (fst (post_api_upload scripted demo_config moby
                (start [not_found, ok_response (Some (str ''b10b'')) NotArray,
                        ok_response (Some (str ''5f2a'')) (Books [old_book]),
                        ok_response (Some (str ''77aa'')) NotArray])))) =
     Some (str ''books/moby-dick-herman-melville.pdf'', str ''PDF'') \<and>
   map (\<lambda>c. (verb (fst c),
              map_option (map (\<lambda>b. (b_file b, b_format b))) (catalog_written (fst c)),
              accepted (snd c)))
     (new_calls (start [not_found, ok_response (Some (str ''b10b'')) NotArray,
                        ok_response (Some (str ''5f2a'')) (Books [old_book]),
                        ok_response (Some (str ''77aa'')) NotArray])
        (snd (post_api_upload scripted demo_config moby
                (start [not_found, ok_response (Some (str ''b10b'')) NotArray,
                        ok_response (Some (str ''5f2a'')) (Books [old_book]),
                        ok_response (Some (str ''77aa'')) NotArray])))) =
     [(GET, None, False), (PUT, None, True), (GET, None, True),
      (PUT, Some [(str ''books/emma-jane-austen.epub'', str ''EPUB''),
                  (str ''books/moby-dick-herman-melville.pdf'', str ''PDF'')], True)]"
  using upload_blob_path [of scripted demo_config moby
      "start [not_found, ok_response (Some (str ''b10b'')) NotArray,
              ok_response (Some (str ''5f2a'')) (Books [old_book]),
              ok_response (Some (str ''77aa'')) NotArray]", OF moby_run]
  by (simp add: moby_run newBook_def)
     (simp add: new_calls_def start_def catalog_written_def get_request_def put_request_def
        old_book_def ok_response_def not_found_def ok_def)

text \<open>
  C8, as amended. For every successful upload whose genre field has no leading or trailing
  white space and is not the name of a member that objects inherit from
  \<^verbatim>\<open>Object.prototype\<close>, the stored genre is that field and the stored color is the entry of the
  genre-to-color table for it, or the default \<^verbatim>\<open>#4a4a4a\<close> when the table has no entry for it.
  The default is also the table's entry for the genre Other.
\<close>

theorem upload_color_from_table:
  assumes "post_api_upload P cfg rq s = (Response 200 (Uploaded msg bk tot), s')"
    and "genre rq = Some g" and "trim g = g" and "g \<notin> set object_prototype_names"
  shows "b_genre bk = g \<and>
         b_color bk = Color (case map_of genreColors g of Some c \<Rightarrow> c | None \<Rightarrow> str ''#4a4a4a'')"
proof -
  from post_api_upload_success[OF assms(1)] assms(2) obtain f t a r3 where
    "bk = newBook P rq t a g (nextId (catalog_books r3)) (fileSize_of f)
            (format_of (file_ext P f)) (filePath_of P f t a)"
    by auto
  with assms(3,4) show ?thesis
    by (simp add: newBook_def color_of_def genreColors_get_def split: option.splits)
qed

theorem upload_color_from_table_witness:
  "map_option (\<lambda>b. (b_genre b, b_color b))
     (uploaded_book
        (fst (post_api_upload scripted demo_config moby
                (start [not_found, ok_response (Some (str ''b10b'')) NotArray,
                        ok_response (Some (str ''5f2a'')) (Books [old_book]),
                        ok_response (Some (str ''77aa'')) NotArray])))) =
     Some (str ''Fiction'', Color (str ''#9c3d2e''))"
proof -
  have g: "genre moby = Some (str ''Fiction'')" by (simp add: moby_def)
  have n: "str ''Fiction'' \<notin> set object_prototype_names"
    by (simp add: object_prototype_names_def str_simps)
  have m: "map_of genreColors (str ''Fiction'') = Some (str ''#9c3d2e'')"
    by (simp add: genreColors_def)
  from upload_color_from_table [of scripted demo_config moby
      "start [not_found, ok_response (Some (str ''b10b'')) NotArray,
              ok_response (Some (str ''5f2a'')) (Books [old_book]),
              ok_response (Some (str ''77aa'')) NotArray]", OF moby_run g trim_fiction n]
  show ?thesis by (simp add: moby_run m)
qed

text \<open>
  The claim as stated fails at the genre Other: it is in the table, and the stored color is the
  default one.
\<close>

theorem color_default_for_listed_genre_counterexample:
  "map_option (\<lambda>b. (b_genre b, b_color b))
     (uploaded_book
        (fst (post_api_upload scripted demo_config (moby\<lparr>genre := Some (str ''Other'')\<rparr>)
                (start [not_found, ok_response (Some (str ''b10b'')) NotArray,
                        ok_response (Some (str ''5f2a'')) (Books [old_book]),
                        ok_response (Some (str ''77aa'')) NotArray])))) =
     Some (str ''Other'', Color (str ''#4a4a4a'')) \<and>
   map_of genreColors (str ''Other'') = Some (str ''#4a4a4a'')"
proof -
  have ne: "str ''Other'' \<noteq> []" by (simp add: str_simps)
  have m: "map_of genreColors (str ''Other'') = Some (str ''#4a4a4a'')"
    by (simp add: genreColors_def str_simps)
  have t: "trim (str ''Other'') = str ''Other''"
    by (simp add: trim_def is_space_def str_simps)
  show ?thesis
    by (simp add: moby_genre_run[OF ne] newBook_def color_of_def genreColors_get_def m t)
qed

text \<open>
  C9, at a failing input. The upload of the example book to a host that answers the write of
  the blob with status 409 and the body \<^verbatim>\<open>books.json does not match 5f2a\<close>: the client
  receives status 500 with an error text that carries the remote status and the remote body,
  the same text that is written to the console.
\<close>

theorem upload_failure_exposes_remote_error:
  "post_api_upload scripted demo_config moby (start [not_found, conflict]) =
   (Response 500 (Failure (str ''GitHub commit failed (409): books.json does not match 5f2a'')),
    \<lparr>world = [],
     calls =
       [(get_request demo_config (str ''books/moby-dick-herman-melville.pdf''), not_found),
        (put_request demo_config (str ''books/moby-dick-herman-melville.pdf'')
           \<lparr>message = str ''Add: Moby Dick by Herman Melville'', content = Blob [37, 80, 68, 70],
            branch = str ''main'', sha = None\<rparr>, conflict)],
     console =
       [str ''Uploading: books/moby-dick-herman-melville.pdf (1.5 MB)'',
        str ''POST /api/upload: GitHub commit failed (409): books.json does not match 5f2a'']\<rparr>)"
proof -
  have fp: "filePath_of scripted moby_file (str ''Moby Dick'') (str ''Herman Melville'') =
      str ''books/moby-dick-herman-melville.pdf''"
    by (simp add: filePath_of_def scripted_sel slug_moby slug_melville file_ext_moby)
       (simp add: str_simps)
  have sz: "fileSize_of moby_file = str ''1.5 MB''"
    by (simp add: fileSize_of_def toFixed1_MB_def moby_file_def digits.simps str_simps)
  have st: "upload_steps scripted demo_config moby moby_file (str ''Moby Dick'')
      (str ''Herman Melville'') (str ''Fiction'') (start [not_found, conflict]) =
    (Inl (Error (str ''GitHub commit failed (409): books.json does not match 5f2a'')),
     \<lparr>world = [],
      calls =
       [(get_request demo_config (str ''books/moby-dick-herman-melville.pdf''), not_found),
        (put_request demo_config (str ''books/moby-dick-herman-melville.pdf'')
           \<lparr>message = str ''Add: '' @ str ''Moby Dick'' @ str '' by '' @ str ''Herman Melville'',
            content = Blob (buffer moby_file),
            branch = GITHUB_BRANCH demo_config, sha = None\<rparr>, conflict)],
      console = [str ''Uploading: '' @ str ''books/moby-dick-herman-melville.pdf'' @ str '' ('' @
                 str ''1.5 MB'' @ str '')'']\<rparr>)"
    by (simp add: upload_steps_def Let_def bnd_def console_log_def write_console_def start_def
        fp sz getFileSHA_scripted_absent commit_scripted_conflict)
  have h: "upload_handler scripted demo_config moby (start [not_found, conflict]) =
    (Response 500 (Failure (str ''GitHub commit failed (409): books.json does not match 5f2a'')),
     write_console (str ''POST /api/upload: '' @
         str ''GitHub commit failed (409): books.json does not match 5f2a'')
     \<lparr>world = [],
      calls =
       [(get_request demo_config (str ''books/moby-dick-herman-melville.pdf''), not_found),
        (put_request demo_config (str ''books/moby-dick-herman-melville.pdf'')
           \<lparr>message = str ''Add: '' @ str ''Moby Dick'' @ str '' by '' @ str ''Herman Melville'',
            content = Blob (buffer moby_file),
            branch = GITHUB_BRANCH demo_config, sha = None\<rparr>, conflict)],
      console = [str ''Uploading: '' @ str ''books/moby-dick-herman-melville.pdf'' @ str '' ('' @
                 str ''1.5 MB'' @ str '')'']\<rparr>)"
    unfolding upload_handler_def try_catch_def
    by (simp add: moby_def st[unfolded moby_def]) (simp add: str_simps)
  show ?thesis
    unfolding post_api_upload_def upload_single_moby
    by (simp add: h) (simp add: write_console_def moby_file_def demo_config_def str_simps)
qed

text \<open>
  C10, as amended. In every operation that reads the catalog document, the list, the delete
  of an authorized request and the upload (where it is the third call), if the document is
  there but the response body is not JSON or the decoded content does not parse as JSON, the
  operation answers 500 and makes no further call. A content that parses to a value that is
  not an array is not such a case: it is read as the empty catalog.
\<close>

theorem unparsable_catalog_fails:
  "(\<exists>c. new_calls s (snd (get_api_books P cfg s)) = [c] \<and>
        fst c = get_request cfg (str ''books.json'') \<and>
        (catalog_unparsable (snd c) \<longrightarrow>
           fst (get_api_books P cfg s) =
             Response 500 (Failure (str ''Failed to fetch books catalog.'')))) \<and>
   (authorization drq = Some (str ''Bearer '' @ ADMIN_SECRET cfg) \<longrightarrow>
      (\<exists>c cs. new_calls s (snd (delete_handler P cfg drq s)) = c # cs \<and>
         fst c = get_request cfg (str ''books.json'') \<and>
         (catalog_unparsable (snd c) \<longrightarrow>
            status_code (fst (delete_handler P cfg drq s)) = 500 \<and> cs = []))) \<and>
   (\<forall>c1 c2 c3 cs.
      new_calls s (snd (post_api_upload P cfg urq s)) = c1 # c2 # c3 # cs \<longrightarrow>
        fst c3 = get_request cfg (str ''books.json'') \<and>
        (catalog_unparsable (snd c3) \<longrightarrow>
           status_code (fst (post_api_upload P cfg urq s)) = 500 \<and> cs = []))"
proof -
  from get_api_books_run[of s P cfg]
  have 1: "\<exists>c. new_calls s (snd (get_api_books P cfg s)) = [c] \<and>
        fst c = get_request cfg (str ''books.json'') \<and>
        (catalog_unparsable (snd c) \<longrightarrow>
           fst (get_api_books P cfg s) =
             Response 500 (Failure (str ''Failed to fetch books catalog.'')))"
    using catalog_unparsable_not_read by blast
  have 2: "\<exists>c cs. new_calls s (snd (delete_handler P cfg drq s)) = c # cs \<and>
         fst c = get_request cfg (str ''books.json'') \<and>
         (catalog_unparsable (snd c) \<longrightarrow>
            status_code (fst (delete_handler P cfg drq s)) = 500 \<and> cs = [])"
    if "authorization drq = Some (str ''Bearer '' @ ADMIN_SECRET cfg)"
    using delete_handler_run[OF that, of s P] catalog_unparsable_not_read by blast
  have 3: "fst c3 = get_request cfg (str ''books.json'') \<and>
        (catalog_unparsable (snd c3) \<longrightarrow>
           status_code (fst (post_api_upload P cfg urq s)) = 500 \<and> cs = [])"
    if "new_calls s (snd (post_api_upload P cfg urq s)) = c1 # c2 # c3 # cs" for c1 c2 c3 cs
    using post_api_upload_third[OF that] catalog_unparsable_not_read[of "snd c3"] by blast
  from 1 2 3 show ?thesis by blast
qed

theorem unparsable_catalog_fails_witness:
  "fst (get_api_books scripted demo_config
          (start [ok_response (Some (str ''5f2a'')) (Unparsable (str ''Unexpected end of JSON input''))])) =
     Response 500 (Failure (str ''Failed to fetch books catalog.'')) \<and>
   status_code
     (fst (delete_handler scripted demo_config (admin_delete (str ''7''))
             (start [ok_response (Some (str ''5f2a''))
                       (Unparsable (str ''Unexpected end of JSON input''))]))) = 500 \<and>
   status_code
     (fst (post_api_upload scripted demo_config moby
             (start [not_found, ok_response (Some (str ''b10b'')) NotArray,
                     ok_response (Some (str ''5f2a''))
                       (Unparsable (str ''Unexpected end of JSON input''))]))) = 500"
proof -
  let ?bad = "ok_response (Some (str ''5f2a'')) (Unparsable (str ''Unexpected end of JSON input''))"
  have bad: "catalog_unparsable ?bad"
    by (rule getBooksJson_scripted_unparsable)
  have g: "getBooksJson scripted demo_config (start [?bad]) =
    (Inl (Error (str ''Unexpected end of JSON input'')),
     \<lparr>world = [], calls = [(get_request demo_config (str ''books.json''), ?bad)], console = []\<rparr>)"
    by (simp add: start_def getBooksJson_scripted_ok)
  have run: "new_calls (start [?bad]) (snd (get_api_books scripted demo_config (start [?bad]))) =
      [(get_request demo_config (str ''books.json''), ?bad)]"
    by (simp add: get_api_books_def try_catch_def bnd_def g write_console_def)
       (simp add: new_calls_def start_def)
  have del: "new_calls (start [?bad])
      (snd (delete_handler scripted demo_config (admin_delete (str ''7'')) (start [?bad]))) =
      [(get_request demo_config (str ''books.json''), ?bad)]"
    by (simp add: delete_unparsable_run) (simp add: new_calls_def start_def)
  have up: "new_calls (start [not_found, ok_response (Some (str ''b10b'')) NotArray, ?bad])
      (snd (post_api_upload scripted demo_config moby
              (start [not_found, ok_response (Some (str ''b10b'')) NotArray, ?bad]))) =
      [(get_request demo_config (str ''books/moby-dick-herman-melville.pdf''), not_found),
        (put_request demo_config (str ''books/moby-dick-herman-melville.pdf'')
           \<lparr>message = str ''Add: '' @ str ''Moby Dick'' @ str '' by '' @ str ''Herman Melville'',
            content = Blob (buffer moby_file),
            branch = GITHUB_BRANCH demo_config, sha = None\<rparr>,
         ok_response (Some (str ''b10b'')) NotArray),
        (get_request demo_config (str ''books.json''), ?bad)]"
    by (simp add: moby_unparsable_run) (simp add: new_calls_def start_def)
  note t1 = unparsable_catalog_fails [of "start [?bad]" scripted demo_config
      "admin_delete (str ''7'')" moby]
  note t2 = unparsable_catalog_fails
      [of "start [not_found, ok_response (Some (str ''b10b'')) NotArray, ?bad]" scripted
        demo_config "admin_delete (str ''7'')" moby]
  from t1 run bad have 1: "fst (get_api_books scripted demo_config (start [?bad])) =
      Response 500 (Failure (str ''Failed to fetch books catalog.''))"
    by auto
  from t1 del bad admin_authorized[of "str ''7''"]
  have 2: "status_code (fst (delete_handler scripted demo_config (admin_delete (str ''7''))
      (start [?bad]))) = 500"
    by auto
  from t2 up bad
  have 3: "status_code (fst (post_api_upload scripted demo_config moby
      (start [not_found, ok_response (Some (str ''b10b'')) NotArray, ?bad]))) = 500"
    by auto
  from 1 2 3 show ?thesis by blast
qed

text \<open>
  The claim as stated fails for a catalog document that holds a JSON value other than an array:
  the list answers 200 with no books.
\<close>

theorem non_array_catalog_read_as_empty_counterexample:
  "get_api_books scripted demo_config (start [ok_response (Some (str ''5f2a'')) NotArray]) =
   (Response 200 (Listing 0 []),
    \<lparr>world = [],
     calls = [(get_request demo_config (str ''books.json''),
               ok_response (Some (str ''5f2a'')) NotArray)],
     console = []\<rparr>)"
  by (simp add: get_api_books_def try_catch_def bnd_def ret_def start_def getBooksJson_scripted_ok)

end
